theory Spec2Isabelle
  imports Complex_Main "HOL-Library.Monad_Syntax"
begin

section \<open>Strings and the regular expressions of the response parser\<close>

text \<open>
  The repository holds four revisions of the same program. They are named here after the
  file that holds them: \<open>index1\<close> and \<open>index2\<close> are the first and the second document of
  \<^verbatim>\<open>src/index.ts\<close>, \<open>part000\<close> is \<^verbatim>\<open>src/unnamed/part_000\<close> and \<open>part001\<close> is
  \<^verbatim>\<open>src/unnamed/part_001\<close>. Every function that differs between revisions is embedded once
  per revision, with the revision as suffix.

  A JavaScript string is modelled as a \<^typ>\<open>string\<close> whose characters are the code units
  0 to 255 (Latin-1). A JavaScript number is a \<open>jsnum\<close>: not-a-number, an infinity or an exact
  rational; the rounding of a decimal literal to the nearest double and the sign of zero are
  not modelled.
\<close>

definition nl :: char where
  "nl = CHR 0x0A"

definition isSpace :: "char \<Rightarrow> bool" where
  \<comment> \<open>the class \<^verbatim>\<open>\s\<close>, also what \<^verbatim>\<open>trim\<close> and \<^verbatim>\<open>Number\<close> strip\<close>
  "isSpace c \<longleftrightarrow> c \<in> set [CHR 0x09, CHR 0x0A, CHR 0x0B, CHR 0x0C, CHR 0x0D, CHR 0x20, CHR 0xA0]"

definition isDigit :: "char \<Rightarrow> bool" where
  \<comment> \<open>the class \<^verbatim>\<open>\d\<close>\<close>
  "isDigit c \<longleftrightarrow> c \<in> set ''0123456789''"

definition upperLetters :: string where
  "upperLetters = ''ABCDEFGHIJKLMNOPQRSTUVWXYZ''"

definition lowerLetters :: string where
  "lowerLetters = ''abcdefghijklmnopqrstuvwxyz''"

definition isUpper :: "char \<Rightarrow> bool" where
  "isUpper c \<longleftrightarrow> c \<in> set upperLetters"

definition isLower :: "char \<Rightarrow> bool" where
  "isLower c \<longleftrightarrow> c \<in> set lowerLetters"

definition isWord :: "char \<Rightarrow> bool" where
  \<comment> \<open>the class \<^verbatim>\<open>\w\<close>\<close>
  "isWord c \<longleftrightarrow> isUpper c \<or> isLower c \<or> isDigit c \<or> c = CHR ''_''"

definition toUpperAscii :: "char \<Rightarrow> char" where
  \<comment> \<open>the canonical form under the flag \<^verbatim>\<open>i\<close>; every letter of a pattern is ASCII\<close>
  "toUpperAscii c = (case map_of (zip lowerLetters upperLetters) c of Some u \<Rightarrow> u | None \<Rightarrow> c)"

definition toLowerChar :: "char \<Rightarrow> char" where
  \<comment> \<open>\<^verbatim>\<open>toLowerCase\<close> on one Latin-1 code unit: A to Z, and 0xC0 to 0xDE but 0xD7\<close>
  "toLowerChar c =
     (case map_of (zip upperLetters lowerLetters) c of
        Some l \<Rightarrow> l
      | None \<Rightarrow>
          (let n = (of_char c :: nat)
           in if 192 \<le> n \<and> n \<le> 222 \<and> n \<noteq> 215 then char_of (n + 32) else c))"

definition toLowerCase :: "string \<Rightarrow> string" where
  "toLowerCase s = map toLowerChar s"

definition trim :: "string \<Rightarrow> string" where
  "trim s = rev (dropWhile isSpace (rev (dropWhile isSpace s)))"

fun startsWith :: "string \<Rightarrow> string \<Rightarrow> bool" where
  \<comment> \<open>the literal \<open>p\<close> matches at the start of \<open>s\<close>\<close>
  "startsWith [] s = True"
| "startsWith (p # ps) [] = False"
| "startsWith (p # ps) (c # cs) = (if c = p then startsWith ps cs else False)"

fun startsWithCI :: "string \<Rightarrow> string \<Rightarrow> bool" where
  \<comment> \<open>the same under the flag \<^verbatim>\<open>i\<close>\<close>
  "startsWithCI [] s = True"
| "startsWithCI (p # ps) [] = False"
| "startsWithCI (p # ps) (c # cs) =
     (if toUpperAscii c = toUpperAscii p then startsWithCI ps cs else False)"

definition lit :: "bool \<Rightarrow> string \<Rightarrow> string \<Rightarrow> string option" where
  \<comment> \<open>match a literal (\<open>ci\<close>: ignoring case) and return the rest of the input\<close>
  "lit ci p s =
     (if (if ci then startsWithCI p s else startsWith p s) then Some (drop (length p) s) else None)"

definition oneOf :: "string \<Rightarrow> string \<Rightarrow> string option" where
  \<comment> \<open>match one character of a class and return the rest\<close>
  "oneOf cls s = (case s of [] \<Rightarrow> None | c # t \<Rightarrow> if c \<in> set cls then Some t else None)"

definition skipSpace :: "string \<Rightarrow> string" where
  \<comment> \<open>a greedy \<^verbatim>\<open>\s*\<close> in front of something that is not white space\<close>
  "skipSpace s = dropWhile isSpace s"

fun search :: "(string \<Rightarrow> 'a option) \<Rightarrow> string \<Rightarrow> 'a option" where
  \<comment> \<open>\<^verbatim>\<open>String.prototype.match\<close> without the flag \<^verbatim>\<open>g\<close>: the first start index that matches\<close>
  "search m [] = m []"
| "search m (c # cs) = (case m (c # cs) of Some r \<Rightarrow> Some r | None \<Rightarrow> search m cs)"

fun lazyUntil :: "(string \<Rightarrow> bool) \<Rightarrow> string \<Rightarrow> (string \<times> string) option" where
  \<comment> \<open>\<^verbatim>\<open>([\s\S]*?)\<close> followed by \<open>k\<close>: the shortest prefix after which \<open>k\<close> matches\<close>
  "lazyUntil k [] = (if k [] then Some ([], []) else None)"
| "lazyUntil k (c # cs) =
     (if k (c # cs) then Some ([], c # cs)
      else map_option (\<lambda>(b, r). (c # b, r)) (lazyUntil k cs))"

fun splitAcc :: "(string \<Rightarrow> string option) \<Rightarrow> string \<Rightarrow> string \<Rightarrow> string list" where
  \<comment> \<open>\<^verbatim>\<open>String.prototype.split\<close> with a regular expression that has no group: \<open>sep\<close> matches
      the separator at the start of its input and returns the rest. A separator here always
      consumes a character; the test on the lengths keeps the recursion well-founded.\<close>
  "splitAcc sep cur [] = [rev cur]"
| "splitAcc sep cur (c # cs) =
     (case sep (c # cs) of
        None \<Rightarrow> splitAcc sep (c # cur) cs
      | Some rest \<Rightarrow>
          if length rest \<le> length cs then rev cur # splitAcc sep [] rest
          else splitAcc sep (c # cur) cs)"

definition jsSplit :: "(string \<Rightarrow> string option) \<Rightarrow> string \<Rightarrow> string list" where
  "jsSplit sep s = splitAcc sep [] s"

subsection \<open>The code section\<close>

definition codeAt :: "bool \<Rightarrow> string \<Rightarrow> string option" where
  \<comment> \<open>\<^verbatim>\<open>/<openscad>([\s\S]*?)<\/openscad>/\<close> at one start index; the result is group 1\<close>
  "codeAt ci s =
     do {
       r \<leftarrow> lit ci ''<openscad>'' s;
       (body, _) \<leftarrow> lazyUntil (\<lambda>t. lit ci ''</openscad>'' t \<noteq> None) r;
       Some body
     }"

definition codeMatch :: "bool \<Rightarrow> string \<Rightarrow> string option" where
  "codeMatch ci response = search (codeAt ci) response"

subsection \<open>The views section\<close>

definition viewsEnd :: "string \<Rightarrow> bool" where
  \<comment> \<open>the lookahead \<^verbatim>\<open>(?=\n\n|<\/|$)\<close>\<close>
  "viewsEnd t \<longleftrightarrow> startsWith [nl, nl] t \<or> startsWith ''</'' t \<or> t = []"

definition viewsAt :: "string \<Rightarrow> string option" where
  \<comment> \<open>\<^verbatim>\<open>/views:([\s\S]*?)(?=\n\n|<\/|$)/i\<close> at one start index; the result is group 1\<close>
  "viewsAt s =
     do {
       r \<leftarrow> lit True ''views:'' s;
       (body, _) \<leftarrow> lazyUntil viewsEnd r;
       Some body
     }"

definition viewsMatch :: "string \<Rightarrow> string option" where
  "viewsMatch response = search viewsAt response"

subsection \<open>Numbers\<close>

datatype jsnum = NaN | PosInf | NegInf | Fin rat

definition isNaN :: "jsnum \<Rightarrow> bool" where
  "isNaN x \<longleftrightarrow> x = NaN"

definition negate :: "jsnum \<Rightarrow> jsnum" where
  "negate x = (case x of NaN \<Rightarrow> NaN | PosInf \<Rightarrow> NegInf | NegInf \<Rightarrow> PosInf | Fin q \<Rightarrow> Fin (- q))"

definition digitOf :: "char \<Rightarrow> nat" where
  "digitOf c =
     (if isDigit c then of_char c - 48
      else if isLower c then of_char c - 87
      else of_char c - 55)"

definition digitsVal :: "nat \<Rightarrow> string \<Rightarrow> nat" where
  \<comment> \<open>the value of a string of digits in base \<open>b\<close>\<close>
  "digitsVal b s = foldl (\<lambda>acc c. acc * b + digitOf c) 0 s"

definition isHexDigit :: "char \<Rightarrow> bool" where
  "isHexDigit c \<longleftrightarrow> isDigit c \<or> c \<in> set ''abcdefABCDEF''"

definition exponentPart :: "string \<Rightarrow> int option" where
  \<comment> \<open>an optional \<^verbatim>\<open>ExponentPart\<close> that must use up the input\<close>
  "exponentPart r =
     (case r of
        [] \<Rightarrow> Some 0
      | e # t \<Rightarrow>
          if e \<in> set ''eE'' then
            (let (neg, ds) =
                   (case t of
                      [] \<Rightarrow> (False, [])
                    | c # u \<Rightarrow> if c = CHR ''-'' then (True, u)
                               else if c = CHR ''+'' then (False, u) else (False, t))
             in if ds \<noteq> [] \<and> list_all isDigit ds
                then Some (if neg then - int (digitsVal 10 ds) else int (digitsVal 10 ds))
                else None)
          else None)"

definition unsignedDecimal :: "string \<Rightarrow> jsnum" where
  \<comment> \<open>\<^verbatim>\<open>StrUnsignedDecimalLiteral\<close>: \<^verbatim>\<open>Infinity\<close>, or digits with an optional fraction and
      exponent, at least one digit before the exponent\<close>
  "unsignedDecimal s =
     (if s = ''Infinity'' then PosInf
      else
        let ip = takeWhile isDigit s;
            r1 = dropWhile isDigit s;
            dot = (r1 \<noteq> [] \<and> hd r1 = CHR ''.'');
            fp = (if dot then takeWhile isDigit (tl r1) else []);
            r2 = (if dot then dropWhile isDigit (tl r1) else r1)
        in if ip = [] \<and> fp = [] then NaN
           else
             (case exponentPart r2 of
                None \<Rightarrow> NaN
              | Some e \<Rightarrow>
                  let m = (of_nat (digitsVal 10 (ip @ fp)) :: rat) / 10 ^ length fp
                  in Fin (if 0 \<le> e then m * 10 ^ nat e else m / 10 ^ nat (- e))))"

definition nonDecimal :: "string \<Rightarrow> jsnum option" where
  \<comment> \<open>\<^verbatim>\<open>NonDecimalIntegerLiteral\<close>: \<^verbatim>\<open>0x\<close>, \<^verbatim>\<open>0o\<close>, \<^verbatim>\<open>0b\<close> and their digits, no sign\<close>
  "nonDecimal t =
     (case t of
        z # x # ds \<Rightarrow>
          if z = CHR ''0'' \<and> ds \<noteq> [] then
            (if x \<in> set ''xX'' \<and> list_all isHexDigit ds then Some (Fin (of_nat (digitsVal 16 ds)))
             else if x \<in> set ''oO'' \<and> list_all (\<lambda>c. c \<in> set ''01234567'') ds
               then Some (Fin (of_nat (digitsVal 8 ds)))
             else if x \<in> set ''bB'' \<and> list_all (\<lambda>c. c \<in> set ''01'') ds
               then Some (Fin (of_nat (digitsVal 2 ds)))
             else None)
          else None
      | _ \<Rightarrow> None)"

definition Number :: "string \<Rightarrow> jsnum" where
  \<comment> \<open>\<^verbatim>\<open>Number(s)\<close> on a string: white space is stripped, the empty string is 0, anything
      that is not a numeric literal is \<open>NaN\<close>\<close>
  "Number s =
     (let t = trim s
      in if t = [] then Fin 0
         else
           (case nonDecimal t of
              Some v \<Rightarrow> v
            | None \<Rightarrow>
                (case t of
                   c # u \<Rightarrow>
                     if c = CHR ''+'' then unsignedDecimal u
                     else if c = CHR ''-'' then negate (unsignedDecimal u)
                     else unsignedDecimal t
                 | [] \<Rightarrow> Fin 0)))"

definition parseInt :: "string \<Rightarrow> int" where
  \<comment> \<open>\<^verbatim>\<open>parseInt\<close> in base 10; it is only called on a match of \<^verbatim>\<open>\d+\<close>\<close>
  "parseInt s = int (digitsVal 10 (takeWhile isDigit s))"

section \<open>Data model\<close>

record ViewSpec =
  name :: string
  angle :: "jsnum list"
  distance :: int

record CADModel =
  code :: string
  views :: "ViewSpec list"

record RenderResult =
  view :: string
  image :: string

record IterationState =
  timestamp :: string
  icode :: string
  renders :: "RenderResult list"
  feedback :: "string option"

record ProjectState =
  pid :: string
  originalPrompt :: string
  iterations :: "IterationState list"

datatype error =
    Error string
  | RuntimeError \<comment> \<open>an exception of the runtime or of the file system; its message is not modelled\<close>

section \<open>Response parser\<close>

subsection \<open>Field matchers of \<^verbatim>\<open>part_001\<close>\<close>

definition nameAt_part001 :: "string \<Rightarrow> string option" where
  \<comment> \<open>\<^verbatim>\<open>/name\s*[:=]\s*["']?([\w-]+)["']?/i\<close> at one start index; the result is group 1\<close>
  "nameAt_part001 s =
     do {
       a \<leftarrow> lit True ''name'' s;
       b \<leftarrow> oneOf '':='' (skipSpace a);
       let c = skipSpace b;
       let d = (case c of [] \<Rightarrow> c | q # t \<Rightarrow> if q \<in> set [CHR 0x22, CHR 0x27] then t else c);
       let g = takeWhile (\<lambda>x. isWord x \<or> x = CHR ''-'') d;
       if g = [] then None else Some g
     }"

definition isAngleChar :: "char \<Rightarrow> bool" where
  \<comment> \<open>the class \<^verbatim>\<open>[-\d\s.,]\<close>\<close>
  "isAngleChar c \<longleftrightarrow> c = CHR ''-'' \<or> isDigit c \<or> isSpace c \<or> c = CHR ''.'' \<or> c = CHR '',''"

definition angleAt_part001 :: "string \<Rightarrow> string option" where
  \<comment> \<open>\<^verbatim>\<open>/angle\s*[:=]\s*\[?\s*([-\d\s.,]+)\s*\]?/i\<close> at one start index; the result is
      group 1. The group needs a character and white space is in its class: when nothing of
      the class follows the white space, the matcher backtracks and the group is the last
      white space character before that point.\<close>
  "angleAt_part001 s =
     do {
       a \<leftarrow> lit True ''angle'' s;
       b \<leftarrow> oneOf '':='' (skipSpace a);
       let w1 = takeWhile isSpace b;
       let u1 = dropWhile isSpace b;
       let u1' = (case u1 of [] \<Rightarrow> u1 | q # t \<Rightarrow> if q = CHR ''['' then t else u1);
       let w2 = takeWhile isSpace u1';
       let u2 = dropWhile isSpace u1';
       let g = takeWhile isAngleChar u2;
       if g \<noteq> [] then Some g
       else if w2 \<noteq> [] then Some [last w2]
       else if w1 \<noteq> [] then Some [last w1]
       else None
     }"

definition distanceAt :: "string \<Rightarrow> string \<Rightarrow> string option" where
  \<comment> \<open>\<^verbatim>\<open>/distance\s*[:=]\s*(\d+)/i\<close> (\<open>seps\<close> is \<^verbatim>\<open>:=\<close>) and
      \<^verbatim>\<open>/distance\s*:\s*(\d+)/i\<close> (\<open>seps\<close> is \<^verbatim>\<open>:\<close>) at one start index\<close>
  "distanceAt seps s =
     do {
       a \<leftarrow> lit True ''distance'' s;
       b \<leftarrow> oneOf seps (skipSpace a);
       let g = takeWhile isDigit (skipSpace b);
       if g = [] then None else Some g
     }"

definition entrySep_part001 :: "string \<Rightarrow> string option" where
  \<comment> \<open>the separator \<^verbatim>\<open>/(?:\n\s*)?-\s*/\<close> at the start of the input\<close>
  "entrySep_part001 s =
     (case s of
        [] \<Rightarrow> None
      | c # t \<Rightarrow>
          if c = nl then
            (case skipSpace t of
               [] \<Rightarrow> None
             | d # u \<Rightarrow> if d = CHR ''-'' then Some (skipSpace u) else None)
          else if c = CHR ''-'' then Some (skipSpace t)
          else None)"

definition angleSep_part001 :: "string \<Rightarrow> string option" where
  \<comment> \<open>the separator \<^verbatim>\<open>/,\s*|\s+/\<close> at the start of the input\<close>
  "angleSep_part001 s =
     (case s of
        [] \<Rightarrow> None
      | c # t \<Rightarrow> if c = CHR '','' \<or> isSpace c then Some (skipSpace t) else None)"

subsection \<open>Field matchers of \<^verbatim>\<open>part_000\<close> and of the first revision in \<^verbatim>\<open>index.ts\<close>\<close>

definition quotedAt :: "string \<Rightarrow> char \<Rightarrow> char \<Rightarrow> string \<Rightarrow> string option" where
  \<comment> \<open>\<^verbatim>\<open>/name\s*:\s*"([^"]+)"/i\<close> (key \<^verbatim>\<open>name\<close>, both delimiters the double quote) and
      \<^verbatim>\<open>/angle\s*:\s*\[([^\]]+)\]/i\<close> (key \<^verbatim>\<open>angle\<close>, delimiters the brackets) at one
      start index; the result is group 1\<close>
  "quotedAt key opn cls s =
     do {
       a \<leftarrow> lit True key s;
       b \<leftarrow> oneOf '':'' (skipSpace a);
       c \<leftarrow> oneOf [opn] (skipSpace b);
       let g = takeWhile (\<lambda>x. x \<noteq> cls) c;
       if g \<noteq> [] \<and> dropWhile (\<lambda>x. x \<noteq> cls) c \<noteq> [] then Some g else None
     }"

definition nameAt_part000 :: "string \<Rightarrow> string option" where
  "nameAt_part000 s = quotedAt ''name'' (CHR 0x22) (CHR 0x22) s"

definition angleAt_part000 :: "string \<Rightarrow> string option" where
  "angleAt_part000 s = quotedAt ''angle'' (CHR ''['') (CHR '']'') s"

definition entrySep_part000 :: "string \<Rightarrow> string option" where
  \<comment> \<open>the separator \<^verbatim>\<open>/-\s*/\<close> at the start of the input\<close>
  "entrySep_part000 s =
     (case s of [] \<Rightarrow> None | c # t \<Rightarrow> if c = CHR ''-'' then Some (skipSpace t) else None)"

definition angleSep_part000 :: "string \<Rightarrow> string option" where
  \<comment> \<open>the separator \<^verbatim>\<open>/\s*,\s*/\<close> at the start of the input\<close>
  "angleSep_part000 s =
     (case skipSpace s of
        [] \<Rightarrow> None
      | c # t \<Rightarrow> if c = CHR '','' then Some (skipSpace t) else None)"

subsection \<open>\<^verbatim>\<open>parseResponse\<close> of \<^verbatim>\<open>part_001\<close>\<close>

datatype viewError = MissingName nat | MissingAngles nat | InvalidAngles nat

fun rights :: "('a + 'b) list \<Rightarrow> 'b list" where
  "rights [] = []"
| "rights (Inl _ # xs) = rights xs"
| "rights (Inr v # xs) = v # rights xs"

fun lefts :: "('a + 'b) list \<Rightarrow> 'a list" where
  "lefts [] = []"
| "lefts (Inl e # xs) = e # lefts xs"
| "lefts (Inr _ # xs) = lefts xs"

definition angleParts_part001 :: "string \<Rightarrow> jsnum list" where
  "angleParts_part001 g = filter (\<lambda>n. \<not> isNaN n) (map Number (jsSplit angleSep_part001 g))"

definition parseEntry_part001 :: "nat \<Rightarrow> string \<Rightarrow> viewError + ViewSpec" where
  \<comment> \<open>the body of the loop over \<^verbatim>\<open>viewEntries.entries()\<close>: \<open>Inl\<close> is the error the body
      throws and the loop records in \<^verbatim>\<open>viewErrors\<close>\<close>
  "parseEntry_part001 index entry =
     (let nameMatch = search nameAt_part001 entry;
          angleMatch = search angleAt_part001 entry;
          distanceMatch = search (distanceAt '':='') entry
      in case nameMatch of
           None \<Rightarrow> Inl (MissingName (index + 1))
         | Some nm \<Rightarrow>
             (case angleMatch of
                None \<Rightarrow> Inl (MissingAngles (index + 1))
              | Some g \<Rightarrow>
                  if length (angleParts_part001 g) \<noteq> 3 then Inl (InvalidAngles (index + 1))
                  else Inr \<lparr> name = toLowerCase nm, angle = angleParts_part001 g,
                             distance = (case distanceMatch of
                                           Some d \<Rightarrow> parseInt d | None \<Rightarrow> 150) \<rparr>))"

definition viewEntries_part001 :: "string \<Rightarrow> string list" where
  \<comment> \<open>\<^verbatim>\<open>viewsSection.split(/(?:\n\s*)?-\s*/).filter(Boolean)\<close>\<close>
  "viewEntries_part001 viewsSection = filter (\<lambda>e. e \<noteq> []) (jsSplit entrySep_part001 viewsSection)"

definition entryResults_part001 :: "string \<Rightarrow> (viewError + ViewSpec) list" where
  "entryResults_part001 response =
     (case viewsMatch response of
        None \<Rightarrow> []
      | Some viewsSection \<Rightarrow>
          if viewsSection = [] then []
          else map (\<lambda>(index, entry). parseEntry_part001 index entry)
                 (enumerate 0 (viewEntries_part001 viewsSection)))"

definition parsedViews_part001 :: "string \<Rightarrow> ViewSpec list" where
  \<comment> \<open>the array \<^verbatim>\<open>views\<close> after the loop\<close>
  "parsedViews_part001 response = rights (entryResults_part001 response)"

definition viewErrors_part001 :: "string \<Rightarrow> viewError list" where
  \<comment> \<open>the array \<^verbatim>\<open>viewErrors\<close> after the loop, printed as one warning when it is not empty\<close>
  "viewErrors_part001 response = lefts (entryResults_part001 response)"

definition defaultViews_part001 :: "ViewSpec list" where
  "defaultViews_part001 =
     [\<lparr> name = ''front'', angle = [Fin 0, Fin 0, Fin 0], distance = 150 \<rparr>,
      \<lparr> name = ''back'', angle = [Fin 180, Fin 0, Fin 0], distance = 150 \<rparr>,
      \<lparr> name = ''left'', angle = [Fin 90, Fin 0, Fin 0], distance = 150 \<rparr>,
      \<lparr> name = ''right'', angle = [Fin (- 90), Fin 0, Fin 0], distance = 150 \<rparr>,
      \<lparr> name = ''top'', angle = [Fin 0, Fin 90, Fin 0], distance = 200 \<rparr>,
      \<lparr> name = ''bottom'', angle = [Fin 0, Fin (- 90), Fin 0], distance = 200 \<rparr>,
      \<lparr> name = ''iso'', angle = [Fin 45, Fin 35, Fin 15], distance = 300 \<rparr>]"

definition parseResponse_part001 :: "string \<Rightarrow> error + CADModel" where
  "parseResponse_part001 response =
     (case codeMatch True response of
        None \<Rightarrow> Inl (Error ''Missing OpenSCAD code section'')
      | Some m \<Rightarrow>
          let views = parsedViews_part001 response
          in Inr \<lparr> code = trim m,
                   views = (if length views > 3 then views else defaultViews_part001) \<rparr>)"

subsection \<open>\<^verbatim>\<open>parseResponse\<close> of \<^verbatim>\<open>part_000\<close>\<close>

definition angleParts_part000 :: "string \<Rightarrow> jsnum list" where
  "angleParts_part000 g = filter (\<lambda>n. \<not> isNaN n) (map Number (jsSplit angleSep_part000 g))"

definition parseEntry_part000 :: "string \<Rightarrow> ViewSpec option" where
  \<comment> \<open>the body of the loop over \<^verbatim>\<open>viewEntries\<close>: \<open>None\<close> where the body says
      \<^verbatim>\<open>continue\<close>\<close>
  "parseEntry_part000 entry =
     (let nameMatch = search nameAt_part000 entry;
          angleMatch = search angleAt_part000 entry;
          distanceMatch = search (distanceAt '':'') entry
      in case nameMatch of
           None \<Rightarrow> None
         | Some nm \<Rightarrow>
             (case angleMatch of
                None \<Rightarrow> None
              | Some g \<Rightarrow>
                  if length (angleParts_part000 g) \<noteq> 3 then None
                  else Some \<lparr> name = toLowerCase nm, angle = angleParts_part000 g,
                              distance = (case distanceMatch of
                                            Some d \<Rightarrow> parseInt d | None \<Rightarrow> 150) \<rparr>))"

definition viewEntries_part000 :: "string \<Rightarrow> string list" where
  \<comment> \<open>\<^verbatim>\<open>viewSection.split(/-\s*/).slice(1)\<close>\<close>
  "viewEntries_part000 viewSection = drop 1 (jsSplit entrySep_part000 viewSection)"

definition parsedViews_part000 :: "string \<Rightarrow> ViewSpec list" where
  \<comment> \<open>the array \<^verbatim>\<open>views\<close> after the loop\<close>
  "parsedViews_part000 response =
     (case viewsMatch response of
        None \<Rightarrow> []
      | Some viewSection \<Rightarrow>
          if viewSection = [] then []
          else List.map_filter parseEntry_part000 (viewEntries_part000 viewSection))"

definition defaultViews_part000 :: "ViewSpec list" where
  "defaultViews_part000 =
     [\<lparr> name = ''front'', angle = [Fin 0, Fin 0, Fin 0], distance = 150 \<rparr>,
      \<lparr> name = ''top'', angle = [Fin 90, Fin 0, Fin 0], distance = 200 \<rparr>,
      \<lparr> name = ''iso'', angle = [Fin 45, Fin 35, Fin 15], distance = 250 \<rparr>]"

definition parseResponse_part000 :: "string \<Rightarrow> error + CADModel" where
  "parseResponse_part000 response =
     (case codeMatch True response of
        None \<Rightarrow> Inl (Error ''Missing OpenSCAD code section'')
      | Some m \<Rightarrow>
          let views = parsedViews_part000 response
          in Inr \<lparr> code = trim m,
                   views = (if length views \<ge> 3 then views else defaultViews_part000) \<rparr>)"

subsection \<open>\<^verbatim>\<open>parseResponse\<close> of the first revision in \<^verbatim>\<open>index.ts\<close>\<close>

definition viewOfText_index1 :: "string \<Rightarrow> error + ViewSpec" where
  \<comment> \<open>the function mapped over \<^verbatim>\<open>viewEntries\<close>; its regular expressions are those of
      \<^verbatim>\<open>part_000\<close>\<close>
  "viewOfText_index1 viewText =
     (let nameMatch = search nameAt_part000 viewText;
          angleMatch = search angleAt_part000 viewText;
          distanceMatch = search (distanceAt '':'') viewText
      in case (nameMatch, angleMatch) of
           (Some nm, Some g) \<Rightarrow>
             (let angleParts = map Number (jsSplit angleSep_part000 g)
              in if length angleParts \<noteq> 3 \<or> list_ex isNaN angleParts
                 then Inl (Error (''Invalid angle values: '' @ g))
                 else Inr \<lparr> name = nm, angle = angleParts,
                            distance = (case distanceMatch of
                                          Some d \<Rightarrow> parseInt d | None \<Rightarrow> 100) \<rparr>)
         | _ \<Rightarrow> Inl (Error ''Invalid view format - missing required fields''))"

fun mapViews_index1 :: "string list \<Rightarrow> error + ViewSpec list" where
  \<comment> \<open>\<^verbatim>\<open>viewEntries.map(...)\<close>, left by the first exception\<close>
  "mapViews_index1 [] = Inr []"
| "mapViews_index1 (t # ts) =
     (case viewOfText_index1 t of
        Inl e \<Rightarrow> Inl e
      | Inr v \<Rightarrow> (case mapViews_index1 ts of Inl e \<Rightarrow> Inl e | Inr vs \<Rightarrow> Inr (v # vs)))"

definition defaultViews_index1 :: "ViewSpec list" where
  "defaultViews_index1 =
     [\<lparr> name = ''front'', angle = [Fin 0, Fin 0, Fin 0], distance = 100 \<rparr>,
      \<lparr> name = ''iso'', angle = [Fin 45, Fin 35, Fin 0], distance = 100 \<rparr>]"

definition parseResponse_index1 :: "string \<Rightarrow> error + CADModel" where
  \<comment> \<open>nothing inside the outer \<^verbatim>\<open>try\<close> can throw, so its \<^verbatim>\<open>catch\<close> is dead code\<close>
  "parseResponse_index1 response =
     (case codeMatch False response of
        None \<Rightarrow> Inl (Error (''Could not find OpenSCAD code section. ''
                              @ ''Response must include <openscad> tags.''))
      | Some m \<Rightarrow>
          Inr \<lparr> code = trim m,
                views =
                  (case viewsMatch response of
                     None \<Rightarrow> defaultViews_index1
                   | Some viewsText \<Rightarrow>
                       (case mapViews_index1 (viewEntries_part001 viewsText) of
                          Inl e \<Rightarrow> defaultViews_index1
                        | Inr vs \<Rightarrow> vs)) \<rparr>)"

subsection \<open>\<^verbatim>\<open>parseResponse\<close> of the second revision in \<^verbatim>\<open>index.ts\<close>\<close>

text \<open>
  This revision reads the views with the package \<^verbatim>\<open>yaml\<close>, which is not part of the
  repository. The two tests in front of the \<^verbatim>\<open>try\<close> are embedded as they are; the body of
  the \<^verbatim>\<open>try\<close>, which hands the matched section to the package and checks what it
  returns, is the parameter \<open>yamlStage\<close>: it receives the code and the response and returns
  the model or the exception.
\<close>

definition yamlAt :: "string \<Rightarrow> bool" where
  \<comment> \<open>whether \<^verbatim>\<open>/views:\s*((?:[\s\S]*?\n  - [\s\S]*?)+)(?:\n\n|$)/\<close> matches at one start
      index. \<^verbatim>\<open>\s*\<close> may match nothing and the last lazy run may reach the end of the input,
      where \<^verbatim>\<open>$\<close> matches: the expression matches exactly when a line feed, two spaces, a
      dash and a space occur somewhere after the marker.\<close>
  "yamlAt s \<longleftrightarrow>
     (case lit False ''views:'' s of
        None \<Rightarrow> False
      | Some r \<Rightarrow> search (lit False (nl # ''  - '')) r \<noteq> None)"

definition yamlMatch :: "string \<Rightarrow> bool" where
  "yamlMatch response \<longleftrightarrow> search (\<lambda>s. if yamlAt s then Some s else None) response \<noteq> None"

definition parseResponse_index2 :: "(string \<Rightarrow> string \<Rightarrow> error + 'm) \<Rightarrow> string \<Rightarrow> error + 'm" where
  "parseResponse_index2 yamlStage response =
     (case codeMatch False response of
        None \<Rightarrow> Inl (Error (''Could not find OpenSCAD code section. ''
                              @ ''Response must include <openscad> tags.''))
      | Some m \<Rightarrow>
          if \<not> yamlMatch response
          then Inl (Error ''Could not find properly formatted views section'')
          else yamlStage m response)"

section \<open>Renderer\<close>

text \<open>
  The renderer object holds the field \<^verbatim>\<open>tempDir\<close>; the directories that exist are the
  part of the file system it changes. What the outside world does in one call of
  \<^verbatim>\<open>render\<close> is a \<open>RenderEnv\<close>: the name of the scratch directory (made from the
  system's temporary directory and the clock), whether the three calls before the loop
  throw (\<open>Some\<close> the message), and the outcome of the external steps for one view
  (\<^verbatim>\<open>execa\<close>, \<^verbatim>\<open>readFile\<close>, \<^verbatim>\<open>mkdir\<close>, \<^verbatim>\<open>writeFile\<close>): \<open>Inl\<close> the message of the
  exception, \<open>Inr\<close> the image in base 64. \<^verbatim>\<open>rm\<close> with \<^verbatim>\<open>force\<close> is taken to succeed.
\<close>

record RenderWorld =
  tempDir :: "string option"
  dirs :: "string set"

record 'c RenderEnv =
  scratchName :: string
  mkdirTempFails :: "string option"
  writeModelFails :: "string option"
  mkdirRendersFails :: "string option"
  runView :: "nat \<Rightarrow> ViewSpec \<Rightarrow> 'c \<Rightarrow> string + string"

definition cleanup :: "RenderWorld \<Rightarrow> RenderWorld" where
  \<comment> \<open>\<^verbatim>\<open>cleanup\<close> of \<^verbatim>\<open>part_000\<close> and \<^verbatim>\<open>part_001\<close>: the field is reset in any case\<close>
  "cleanup w =
     (case tempDir w of
        Some d \<Rightarrow> if d \<in> dirs w then w\<lparr> dirs := dirs w - {d}, tempDir := None \<rparr>
                  else w\<lparr> tempDir := None \<rparr>
      | None \<Rightarrow> w\<lparr> tempDir := None \<rparr>)"

definition cleanup_index1 :: "RenderWorld \<Rightarrow> RenderWorld" where
  \<comment> \<open>\<^verbatim>\<open>cleanup\<close> of \<^verbatim>\<open>index.ts\<close>: the field is reset only when the directory was removed\<close>
  "cleanup_index1 w =
     (case tempDir w of
        Some d \<Rightarrow> if d \<in> dirs w then w\<lparr> dirs := dirs w - {d}, tempDir := None \<rparr> else w
      | None \<Rightarrow> w)"

definition angleAt :: "ViewSpec \<Rightarrow> nat \<Rightarrow> jsnum" where
  \<comment> \<open>\<^verbatim>\<open>view.angle[k]\<close>; a missing element is \<^verbatim>\<open>undefined\<close>, which arithmetic turns into
      \<open>NaN\<close>\<close>
  "angleAt v k = (if k < length (angle v) then angle v ! k else NaN)"

subsection \<open>Camera parameters\<close>

definition baseDistance :: int where
  "baseDistance = 100"

definition cameraParams_part000 :: "ViewSpec \<Rightarrow> jsnum list" where
  \<comment> \<open>the components of the string \<^verbatim>\<open>cameraParams\<close>, in order; \<^verbatim>\<open>baseDistance * 1.2\<close>
      is 120\<close>
  "cameraParams_part000 v =
     (let validatedDistance = max (distance v) baseDistance;
          rotX = angleAt v 0; rotY = angleAt v 1; rotZ = angleAt v 2
      in if name v = ''front'' then
           [Fin 0, Fin 0, Fin 0, Fin 0, Fin 5, Fin 0, Fin (of_int baseDistance)]
         else if name v = ''top'' then
           [Fin 0, Fin 0, Fin 0, Fin 90, Fin 0, Fin 10, Fin (of_int baseDistance)]
         else if name v = ''iso'' then
           [Fin 20, Fin 0, Fin 0, Fin 35, Fin 0, Fin 25, Fin (of_int baseDistance * 12 / 10)]
         else
           [Fin 0, Fin 0, Fin 0, rotX, rotY, rotZ, Fin (of_int validatedDistance)])"

definition radians :: "jsnum \<Rightarrow> real option" where
  \<comment> \<open>\<^verbatim>\<open>(a * Math.PI) / 180\<close> as an exact real; \<open>None\<close> when \<open>a\<close> is not finite, since the sine
      and the cosine are then \<open>NaN\<close>\<close>
  "radians a = (case a of Fin q \<Rightarrow> Some (of_rat q * pi / 180) | _ \<Rightarrow> None)"

definition eye_part001 :: "ViewSpec \<Rightarrow> real option list" where
  \<comment> \<open>the array \<^verbatim>\<open>eye\<close>; \<open>None\<close> is \<open>NaN\<close>\<close>
  "eye_part001 v =
     (let azimuth = radians (angleAt v 0); elevation = radians (angleAt v 1);
          d = real_of_int (distance v)
      in [do { a \<leftarrow> azimuth; e \<leftarrow> elevation; Some (d * cos a * cos e) },
          do { a \<leftarrow> azimuth; e \<leftarrow> elevation; Some (d * sin a * cos e) },
          do { e \<leftarrow> elevation; Some (d * sin e) }])"

definition center_part001 :: "ViewSpec \<Rightarrow> real option list" where
  \<comment> \<open>the array \<^verbatim>\<open>center\<close>\<close>
  "center_part001 v =
     (let tilt = radians (angleAt v 2); d = real_of_int (distance v)
      in [do { t \<leftarrow> tilt; Some (cos t * (1 / 10) * d) },
          do { t \<leftarrow> tilt; Some (sin t * (1 / 10) * d) },
          Some 0])"

definition cameraParams_part001 :: "ViewSpec \<Rightarrow> real option list" where
  "cameraParams_part001 v = eye_part001 v @ center_part001 v"

definition cameraParams_index1 :: "ViewSpec \<Rightarrow> jsnum list" where
  \<comment> \<open>eye \<^verbatim>\<open>0,0,distance\<close>, center \<^verbatim>\<open>0,0,0\<close>\<close>
  "cameraParams_index1 v = [Fin 0, Fin 0, Fin (of_int (distance v)), Fin 0, Fin 0, Fin 0]"

subsection \<open>\<^verbatim>\<open>render\<close>\<close>

definition prepare :: "(RenderWorld \<Rightarrow> RenderWorld) \<Rightarrow> bool \<Rightarrow> 'c RenderEnv \<Rightarrow> RenderWorld
    \<Rightarrow> RenderWorld \<times> error option" where
  \<comment> \<open>the statements before the loop, none of them inside a \<^verbatim>\<open>try\<close>: clean up, create the
      scratch directory, write the model file and, in \<^verbatim>\<open>part_000\<close> and \<^verbatim>\<open>part_001\<close>
      (\<open>withRenderDir\<close>), create the directory of the saved images. The result is the world
      and the exception that leaves \<^verbatim>\<open>render\<close>, if any.\<close>
  "prepare clean withRenderDir env w =
     (let w1 = (clean w)\<lparr> tempDir := Some (scratchName env) \<rparr>
      in case mkdirTempFails env of
           Some msg \<Rightarrow> (w1, Some (Error msg))
         | None \<Rightarrow>
             (let w2 = w1\<lparr> dirs := insert (scratchName env) (dirs w1) \<rparr>
              in case writeModelFails env of
                   Some msg \<Rightarrow> (w2, Some (Error msg))
                 | None \<Rightarrow>
                     (case (if withRenderDir then mkdirRendersFails env else None) of
                        Some msg \<Rightarrow> (w2, Some (Error msg))
                      | None \<Rightarrow> (w2, None))))"

fun renderLoop_part001 :: "(real option list) RenderEnv \<Rightarrow> nat \<Rightarrow> ViewSpec list
    \<Rightarrow> RenderResult list \<Rightarrow> RenderWorld \<Rightarrow> RenderWorld \<times> (error + RenderResult list)" where
  "renderLoop_part001 env i [] rs w = (cleanup w, Inr rs)"
| "renderLoop_part001 env i (v # vs) rs w =
     (case runView env i v (cameraParams_part001 v) of
        Inl cause \<Rightarrow> (cleanup w, Inl (Error (''Failed to render '' @ name v @ '': '' @ cause)))
      | Inr img \<Rightarrow>
          renderLoop_part001 env (i + 1) vs (rs @ [\<lparr> view = name v, image = img \<rparr>]) w)"

definition render_part001 :: "(real option list) RenderEnv \<Rightarrow> RenderWorld \<Rightarrow> CADModel
    \<Rightarrow> RenderWorld \<times> (error + RenderResult list)" where
  "render_part001 env w model =
     (case prepare cleanup True env w of
        (w1, Some e) \<Rightarrow> (w1, Inl e)
      | (w1, None) \<Rightarrow> renderLoop_part001 env 0 (views model) [] w1)"

fun renderLoop_part000 :: "(jsnum list) RenderEnv \<Rightarrow> nat \<Rightarrow> ViewSpec list
    \<Rightarrow> RenderResult list \<Rightarrow> RenderWorld \<Rightarrow> RenderWorld \<times> (error + RenderResult list)" where
  "renderLoop_part000 env i [] rs w = (cleanup w, Inr rs)"
| "renderLoop_part000 env i (v # vs) rs w =
     (case runView env i v (cameraParams_part000 v) of
        Inl cause \<Rightarrow> (cleanup w, Inl (Error (''Render failed: '' @ cause)))
      | Inr img \<Rightarrow>
          renderLoop_part000 env (i + 1) vs (rs @ [\<lparr> view = name v, image = img \<rparr>]) w)"

definition render_part000 :: "(jsnum list) RenderEnv \<Rightarrow> RenderWorld \<Rightarrow> CADModel
    \<Rightarrow> RenderWorld \<times> (error + RenderResult list)" where
  "render_part000 env w model =
     (case prepare cleanup True env w of
        (w1, Some e) \<Rightarrow> (w1, Inl e)
      | (w1, None) \<Rightarrow> renderLoop_part000 env 0 (views model) [] w1)"

definition viewStep_index1 :: "(jsnum list) RenderEnv \<Rightarrow> nat \<Rightarrow> ViewSpec \<Rightarrow> string + string" where
  \<comment> \<open>the body of the \<^verbatim>\<open>try\<close>: the two checks, then the external steps\<close>
  "viewStep_index1 env i v =
     (if length (angle v) \<noteq> 3 then Inl (''Invalid angle array for view '' @ name v)
      else if distance v \<le> 0 then Inl (''Invalid distance value for view '' @ name v)
      else runView env i v (cameraParams_index1 v))"

fun renderLoop_index1 :: "(jsnum list) RenderEnv \<Rightarrow> nat \<Rightarrow> ViewSpec list
    \<Rightarrow> RenderResult list \<Rightarrow> RenderWorld \<Rightarrow> RenderWorld \<times> (error + RenderResult list)" where
  "renderLoop_index1 env i [] rs w = (cleanup_index1 w, Inr rs)"
| "renderLoop_index1 env i (v # vs) rs w =
     (case viewStep_index1 env i v of
        Inl cause \<Rightarrow> (w, Inl (Error (''Failed to render view '' @ name v @ '': '' @ cause)))
      | Inr img \<Rightarrow>
          renderLoop_index1 env (i + 1) vs (rs @ [\<lparr> view = name v, image = img \<rparr>]) w)"

definition render_index1 :: "(jsnum list) RenderEnv \<Rightarrow> RenderWorld \<Rightarrow> CADModel
    \<Rightarrow> RenderWorld \<times> (error + RenderResult list)" where
  "render_index1 env w model =
     (case prepare cleanup_index1 False env w of
        (w1, Some e) \<Rightarrow> (w1, Inl e)
      | (w1, None) \<Rightarrow> renderLoop_index1 env 0 (views model) [] w1)"

section \<open>Session\<close>

text \<open>
  The session object holds the field \<^verbatim>\<open>state\<close>; the state file is the persisted session
  (\<open>None\<close>: it cannot be read) and \<open>requests\<close> records every request sent to the model
  service, in order. What the outside world does is a \<open>SessionEnv\<close>: \<^verbatim>\<open>JSON.parse\<close>
  (\<open>None\<close>: it throws; \<open>Some None\<close>: the document is \<^verbatim>\<open>null\<close>; a document that parses is
  taken to have the shape of \<^verbatim>\<open>ProjectState\<close>), \<^verbatim>\<open>JSON.stringify\<close>, the concatenated text
  of the streamed completion (\<open>Inl\<close>: the call throws) and the clock. Writing the state file
  is taken to succeed.
\<close>

datatype MessageContent = TextContent string | ImageContent string

datatype content = Plain string | Parts "MessageContent list"

record SessionWorld =
  state :: "ProjectState option"
  stateFile :: "string option"
  requests :: "content list"

record SessionEnv =
  jsonParse :: "string \<Rightarrow> ProjectState option option"
  jsonStringify :: "ProjectState \<Rightarrow> string"
  complete :: "content \<Rightarrow> error + string"
  now :: string

definition loadState :: "string \<Rightarrow> SessionEnv \<Rightarrow> SessionWorld \<Rightarrow> error + SessionWorld" where
  \<comment> \<open>\<open>msg\<close> is the message of the revision\<close>
  "loadState msg env w =
     (case stateFile w of
        None \<Rightarrow> Inl (Error msg)
      | Some data \<Rightarrow>
          (case jsonParse env data of
             None \<Rightarrow> Inl (Error msg)
           | Some st \<Rightarrow> Inr (w\<lparr> state := st \<rparr>)))"

definition addIteration :: "SessionEnv \<Rightarrow> SessionWorld \<Rightarrow> CADModel \<Rightarrow> string option
    \<Rightarrow> error + SessionWorld" where
  \<comment> \<open>push the iteration, then \<^verbatim>\<open>saveState\<close>\<close>
  "addIteration env w model fb =
     (case state w of
        None \<Rightarrow> Inl (Error ''No active session'')
      | Some st \<Rightarrow>
          (let st' = st\<lparr> iterations := iterations st
                         @ [\<lparr> timestamp = now env, icode = code model, renders = [],
                              feedback = fb \<rparr>] \<rparr>
           in Inr (w\<lparr> state := Some st', stateFile := Some (jsonStringify env st') \<rparr>)))"

definition createModel :: "(string \<Rightarrow> error + CADModel) \<Rightarrow> SessionEnv \<Rightarrow> SessionWorld
    \<Rightarrow> content \<Rightarrow> SessionWorld \<times> (error + CADModel)" where
  \<comment> \<open>send the request, concatenate the stream, parse it with the revision's
      \<^verbatim>\<open>parseResponse\<close>\<close>
  "createModel parse env w msg =
     (let w' = w\<lparr> requests := requests w @ [msg] \<rparr>
      in case complete env msg of
           Inl e \<Rightarrow> (w', Inl e)
         | Inr fullResponse \<Rightarrow> (w', parse fullResponse))"

definition upArrow :: string where
  \<comment> \<open>the character U+2191 of the label, as its three bytes in UTF-8\<close>
  "upArrow = [CHR 0xE2, CHR 0x86, CHR 0x91]"

definition formatIterationMessage_part001 :: "ProjectState \<Rightarrow> string \<Rightarrow> RenderResult list
    \<Rightarrow> MessageContent list" where
  "formatIterationMessage_part001 st fb rs =
     (let latestCode = icode (last (iterations st))
      in [TextContent (''Original request: '' @ originalPrompt st @ [nl, nl]
              @ ''Previous OpenSCAD code:'' @ [nl] @ latestCode @ [nl, nl]
              @ ''User feedback:'' @ [nl] @ fb @ [nl, nl]
              @ ''Please analyze the following renders and make the requested improvements:'')]
         @ concat (map (\<lambda>r. [ImageContent (image r),
                               TextContent (upArrow @ '' '' @ view r @ '' view'')]) rs)
         @ [TextContent (''Provide updated OpenSCAD code and view specifications ''
              @ ''following the standard format.'')])"

definition formatIterationMessage_part000 :: "ProjectState \<Rightarrow> string \<Rightarrow> RenderResult list
    \<Rightarrow> MessageContent list" where
  "formatIterationMessage_part000 st fb rs =
     ([TextContent (''Original Request: '' @ originalPrompt st @ [nl, nl]
          @ ''Feedback: '' @ fb @ [nl, nl]
          @ ''Current Code:'' @ [nl] @ icode (last (iterations st)) @ [nl, nl]
          @ ''Please analyze these renders:'')]
      @ concat (map (\<lambda>r. [ImageContent (image r), TextContent (view r @ '' view'')]) rs)
      @ [TextContent ''Provide improved OpenSCAD code maintaining the required format.''])"

definition finishIteration :: "(string \<Rightarrow> error + CADModel) \<Rightarrow> SessionEnv \<Rightarrow> SessionWorld
    \<Rightarrow> MessageContent list \<Rightarrow> string \<Rightarrow> SessionWorld \<times> (error + CADModel)" where
  \<comment> \<open>the end of \<^verbatim>\<open>iterateModel\<close>, the same in every revision: \<^verbatim>\<open>createModel\<close>, then
      \<^verbatim>\<open>addIteration\<close> with the feedback, then return the model\<close>
  "finishIteration parse env w parts fb =
     (case createModel parse env w (Parts parts) of
        (w1, Inl e) \<Rightarrow> (w1, Inl e)
      | (w1, Inr model) \<Rightarrow>
          (case addIteration env w1 model (Some fb) of
             Inl e \<Rightarrow> (w1, Inl e)
           | Inr w2 \<Rightarrow> (w2, Inr model)))"

definition iterateModel_part001 :: "SessionEnv \<Rightarrow> SessionWorld \<Rightarrow> string
    \<Rightarrow> SessionWorld \<times> (error + CADModel)" where
  "iterateModel_part001 env w fb =
     (case loadState (''No existing CAD session found. Use '' @ [CHR 0x22] @ ''create''
                        @ [CHR 0x22] @ '' first.'') env w of
        Inl e \<Rightarrow> (w, Inl e)
      | Inr w1 \<Rightarrow>
          (case state w1 of
             None \<Rightarrow> (w1, Inl (Error (''No previous model found. Use '' @ [CHR 0x22] @ ''create''
                                       @ [CHR 0x22] @ '' first.'')))
           | Some st \<Rightarrow>
               if iterations st = [] then
                 (w1, Inl (Error (''No previous model found. Use '' @ [CHR 0x22] @ ''create''
                                  @ [CHR 0x22] @ '' first.'')))
               else
                 (let lastIteration = last (iterations st)
                  in if renders lastIteration = [] then
                       (w1, Inl (Error ''No renders found from previous iteration''))
                     else
                       finishIteration parseResponse_part001 env w1
                         (formatIterationMessage_part001 st fb (renders lastIteration)) fb)))"

definition iterateModel_part000 :: "SessionEnv \<Rightarrow> SessionWorld \<Rightarrow> string
    \<Rightarrow> SessionWorld \<times> (error + CADModel)" where
  "iterateModel_part000 env w fb =
     (case loadState ''No existing session found'' env w of
        Inl e \<Rightarrow> (w, Inl e)
      | Inr w1 \<Rightarrow>
          (case state w1 of
             None \<Rightarrow> (w1, Inl (Error ''No previous model found''))
           | Some st \<Rightarrow>
               if iterations st = [] then (w1, Inl (Error ''No previous model found''))
               else
                 (let lastIteration = last (iterations st)
                  in finishIteration parseResponse_part000 env w1
                       (formatIterationMessage_part000 st fb (renders lastIteration)) fb)))"

section \<open>Commands\<close>

text \<open>
  The two commands do the same after they have the model: render it, then read the state
  file, put the renders into the last iteration and write the file. An exception on the way
  is printed and ends the process. \<open>afterRender\<close> takes the outcome of \<^verbatim>\<open>render\<close> and the
  state file and returns the state file and the outcome of the command.
\<close>

definition attachRenders :: "SessionEnv \<Rightarrow> string option \<Rightarrow> RenderResult list \<Rightarrow> error + string" where
  "attachRenders env file rs =
     (case file of
        None \<Rightarrow> Inl RuntimeError
      | Some data \<Rightarrow>
          (case jsonParse env data of
             None \<Rightarrow> Inl RuntimeError
           | Some None \<Rightarrow> Inl RuntimeError
           | Some (Some projectState) \<Rightarrow>
               if iterations projectState = [] then Inl RuntimeError
               else Inr (jsonStringify env
                      (projectState\<lparr> iterations := butlast (iterations projectState)
                         @ [(last (iterations projectState))\<lparr> renders := rs \<rparr>] \<rparr>))))"

definition afterRender :: "SessionEnv \<Rightarrow> string option \<Rightarrow> error + RenderResult list
    \<Rightarrow> string option \<times> (error + RenderResult list)" where
  "afterRender env file outcome =
     (case outcome of
        Inl e \<Rightarrow> (file, Inl e)
      | Inr rs \<Rightarrow>
          (case attachRenders env file rs of
             Inl e \<Rightarrow> (file, Inl e)
           | Inr data \<Rightarrow> (Some data, Inr rs)))"

section \<open>Notions used in the statements\<close>

definition occursAt :: "bool \<Rightarrow> string \<Rightarrow> string \<Rightarrow> nat \<Rightarrow> bool" where
  \<comment> \<open>the literal \<open>p\<close> occurs in \<open>s\<close> at index \<open>i\<close> (\<open>ci\<close>: ignoring case)\<close>
  "occursAt ci p s i \<longleftrightarrow> lit ci p (drop i s) \<noteq> None"

definition firstAt :: "bool \<Rightarrow> string \<Rightarrow> string \<Rightarrow> nat \<Rightarrow> bool" where
  \<comment> \<open>the first occurrence of \<open>p\<close> in \<open>s\<close> is at index \<open>i\<close>\<close>
  "firstAt ci p s i \<longleftrightarrow> occursAt ci p s i \<and> list_all (\<lambda>j. \<not> occursAt ci p s j) [0..<i]"

definition firstViewsEnd :: "string \<Rightarrow> nat \<Rightarrow> bool" where
  \<comment> \<open>\<open>n\<close> is the first index of \<open>s\<close> at which a blank line (two line feeds) or \<^verbatim>\<open></\<close>
      starts, or the length of \<open>s\<close> when there is none\<close>
  "firstViewsEnd s n \<longleftrightarrow> n \<le> length s \<and> viewsEnd (drop n s) \<and> list_all (\<lambda>j. \<not> viewsEnd (drop j s)) [0..<n]"

definition hasCodeBlock :: "bool \<Rightarrow> string \<Rightarrow> bool" where
  \<comment> \<open>the response contains an opening marker and, after it, a closing marker\<close>
  "hasCodeBlock ci r \<longleftrightarrow>
     (\<exists>pre opn body cls post. r = pre @ opn @ body @ cls @ post
        \<and> length opn = 10 \<and> lit ci ''<openscad>'' opn \<noteq> None
        \<and> length cls = 11 \<and> lit ci ''</openscad>'' cls \<noteq> None)"


definition hasViewsList :: "string \<Rightarrow> bool" where
  \<comment> \<open>the marker \<^verbatim>\<open>views:\<close> occurs and, somewhere after it, a line that starts with two
      spaces, a dash and a space\<close>
  "hasViewsList r \<longleftrightarrow>
     (\<exists>i j. occursAt False ''views:'' r i \<and> i + 6 \<le> j \<and> occursAt False (nl # ''  - '') r j)"

definition prepared :: "'c RenderEnv \<Rightarrow> bool" where
  \<comment> \<open>none of the calls before the loop throws\<close>
  "prepared env \<longleftrightarrow>
     mkdirTempFails env = None \<and> writeModelFails env = None \<and> mkdirRendersFails env = None"

definition failsAt :: "(nat \<Rightarrow> ViewSpec \<Rightarrow> string + string) \<Rightarrow> ViewSpec list \<Rightarrow> nat \<Rightarrow> string
    \<Rightarrow> bool" where
  \<comment> \<open>the view at index \<open>k\<close> is the first whose step throws, with the message \<open>cause\<close>\<close>
  "failsAt step vs k cause \<longleftrightarrow>
     k < length vs \<and> step k (vs ! k) = Inl cause
     \<and> list_all (\<lambda>j. \<not> isl (step j (vs ! j))) [0..<k]"

definition mentions :: "string \<Rightarrow> string \<Rightarrow> bool" where
  \<comment> \<open>the text \<open>p\<close> occurs in \<open>s\<close>\<close>
  "mentions s p \<longleftrightarrow> search (lit False p) s \<noteq> None"

section \<open>Concrete inputs\<close>

definition topFails :: "'c RenderEnv" where
  \<comment> \<open>the external steps fail for the view \<^verbatim>\<open>top\<close>\<close>
  "topFails = \<lparr> scratchName = ''/tmp/cad-forge-1'', mkdirTempFails = None,
      writeModelFails = None, mkdirRendersFails = None,
      runView = (\<lambda>i v c. if name v = ''top'' then Inl ''boom'' else Inr (''png-'' @ name v)) \<rparr>"


definition codeOnly :: string where
  \<comment> \<open>a response with a code section and nothing else\<close>
  "codeOnly = ''<openscad>cube(20);</openscad>''"

definition acceptAll :: "string \<Rightarrow> string \<Rightarrow> error + string" where
  \<comment> \<open>a \<open>yamlStage\<close> that never throws and returns the code\<close>
  "acceptAll c r = Inr c"


definition okEnv :: "'c RenderEnv" where
  \<comment> \<open>every external step succeeds\<close>
  "okEnv = \<lparr> scratchName = ''/tmp/cad-forge-1'', mkdirTempFails = None, writeModelFails = None,
      mkdirRendersFails = None, runView = (\<lambda>i v c. Inr (''png-'' @ name v)) \<rparr>"

definition emptyWorld :: RenderWorld where
  "emptyWorld = \<lparr> tempDir = None, dirs = {} \<rparr>"

definition cubeModel :: CADModel where
  "cubeModel = \<lparr> code = ''cube(20);'', views = defaultViews_part000 \<rparr>"

definition cubeRenders :: "RenderResult list" where
  "cubeRenders = [\<lparr> view = ''front'', image = ''png-front'' \<rparr>,
                  \<lparr> view = ''top'', image = ''png-top'' \<rparr>,
                  \<lparr> view = ''iso'', image = ''png-iso'' \<rparr>]"

definition twoSections :: string where
  \<comment> \<open>a response with two code sections\<close>
  "twoSections = ''<openscad> cube(20); </openscad> or <openscad>sphere(5);</openscad>''"

definition sectionPre :: string where
  "sectionPre = ''<openscad>cube(20);</openscad>'' @ [nl]"

definition sectionBody :: string where
  \<open>sectionBody = [nl] @ ''- name: "front" angle: [0,0,0]''\<close>

definition sectionRest :: string where
  \<comment> \<open>a blank line, then three more entries\<close>
  \<open>sectionRest = [nl, nl] @ ''- name: "top" angle: [90,0,0]'' @ [nl]
     @ ''- name: "iso" angle: [45,35,15]'' @ [nl] @ ''- name: "back" angle: [0,180,0]''\<close>

definition responseHead :: string where
  \<comment> \<open>a code section, a blank line and the marker of the views section\<close>
  "responseHead = ''<openscad>'' @ [nl] @ ''cube(20);'' @ [nl] @ ''</openscad>'' @ [nl, nl]
     @ ''views:''"

definition threeSection :: string where
  \<comment> \<open>three well-formed entries, one per line\<close>
  \<open>threeSection = [nl]
     @ ''- name: "front" angle: [0,0,0] distance: 150'' @ [nl]
     @ ''- name: "top" angle: [90,0,0]'' @ [nl]
     @ ''- name: "iso" angle: [45,35,0] distance: 200''\<close>

definition threeViews :: string where
  "threeViews = responseHead @ threeSection"







definition frontView :: "int \<Rightarrow> ViewSpec" where
  "frontView d = \<lparr> name = ''front'', angle = [Fin 0, Fin 0, Fin 0], distance = d \<rparr>"

definition threeParsed :: "ViewSpec list" where
  "threeParsed =
     [frontView 150,
      \<lparr> name = ''top'', angle = [Fin 90, Fin 0, Fin 0], distance = 150 \<rparr>,
      \<lparr> name = ''iso'', angle = [Fin 45, Fin 35, Fin 0], distance = 200 \<rparr>]"





definition noCode :: string where
  \<comment> \<open>a response without the markers of the code section\<close>
  "noCode = ''cube(20);'' @ [nl] @ ''views:'' @ [nl] @ ''  - name: front''"

definition yamlViews :: string where
  \<comment> \<open>a response in the layout of the prompt of the second revision in \<^verbatim>\<open>index.ts\<close>\<close>
  "yamlViews = codeOnly @ [nl, nl] @ ''views:'' @ [nl] @ ''  - name: front''"

definition unrendered :: ProjectState where
  \<comment> \<open>a session whose only iteration has no renders\<close>
  "unrendered = \<lparr> pid = ''id-1'', originalPrompt = ''a 20mm cube'',
      iterations = [\<lparr> timestamp = ''t0;'', icode = ''cube(20);'', renders = [],
                      feedback = None \<rparr>] \<rparr>"

definition sessionEnv :: SessionEnv where
  \<comment> \<open>the state file is the list of the timestamps; the model answers with \<open>codeOnly\<close>\<close>
  "sessionEnv = \<lparr> jsonParse = (\<lambda>d. if d = ''t0;'' then Some (Some unrendered) else None),
      jsonStringify = (\<lambda>st. concat (map timestamp (iterations st))),
      complete = (\<lambda>msg. Inr codeOnly), now = ''t1;'' \<rparr>"

definition sessionWorld :: SessionWorld where
  "sessionWorld = \<lparr> state = None, stateFile = Some ''t0;'', requests = [] \<rparr>"



section \<open>Properties of the renderer\<close>

lemma renderLoop_part000_views:
  "renderLoop_part000 env i vs rs w = (w', Inr out) \<Longrightarrow> map view out = map view rs @ map name vs"
  by (induction vs arbitrary: i rs) (auto split: sum.splits)

lemma renderLoop_part001_views:
  "renderLoop_part001 env i vs rs w = (w', Inr out) \<Longrightarrow> map view out = map view rs @ map name vs"
  by (induction vs arbitrary: i rs) (auto split: sum.splits)

lemma renderLoop_index1_views:
  "renderLoop_index1 env i vs rs w = (w', Inr out) \<Longrightarrow> map view out = map view rs @ map name vs"
  by (induction vs arbitrary: i rs) (auto split: sum.splits)

text \<open>
  C8. Whenever \<^verbatim>\<open>render\<close> returns, its result has one entry per view of the model, in the
  order of the views, and the field \<open>view\<close> of each entry is the name of its view. This holds
  in \<^verbatim>\<open>part_000\<close>, in \<^verbatim>\<open>part_001\<close> and in the first revision of \<^verbatim>\<open>index.ts\<close>.
\<close>

theorem render_one_result_per_view:
  "(render_part000 ea wa ma = (wa', Inr ra) \<longrightarrow>
      length ra = length (views ma) \<and> map view ra = map name (views ma))
 \<and> (render_part001 eb wb mb = (wb', Inr rb) \<longrightarrow>
      length rb = length (views mb) \<and> map view rb = map name (views mb))
 \<and> (render_index1 ec wc mc = (wc', Inr rc) \<longrightarrow>
      length rc = length (views mc) \<and> map view rc = map name (views mc))"
proof -
  have a: "map view ra = map name (views ma)" if "render_part000 ea wa ma = (wa', Inr ra)"
    using that renderLoop_part000_views [of ea 0 "views ma" "[]"]
    by (auto simp: render_part000_def split: prod.splits option.splits)
  have b: "map view rb = map name (views mb)" if "render_part001 eb wb mb = (wb', Inr rb)"
    using that renderLoop_part001_views [of eb 0 "views mb" "[]"]
    by (auto simp: render_part001_def split: prod.splits option.splits)
  have c: "map view rc = map name (views mc)" if "render_index1 ec wc mc = (wc', Inr rc)"
    using that renderLoop_index1_views [of ec 0 "views mc" "[]"]
    by (auto simp: render_index1_def split: prod.splits option.splits)
  show ?thesis using a b c by (metis length_map)
qed

lemma render_part000_cube: "render_part000 okEnv emptyWorld cubeModel = (emptyWorld, Inr cubeRenders)"
  by (simp add: render_part000_def okEnv_def emptyWorld_def cubeModel_def defaultViews_part000_def
      prepare_def cleanup_def cubeRenders_def)

lemma render_part001_cube: "render_part001 okEnv emptyWorld cubeModel = (emptyWorld, Inr cubeRenders)"
  by (simp add: render_part001_def okEnv_def emptyWorld_def cubeModel_def defaultViews_part000_def
      prepare_def cleanup_def cubeRenders_def)

lemma render_index1_cube: "render_index1 okEnv emptyWorld cubeModel = (emptyWorld, Inr cubeRenders)"
  by (simp add: render_index1_def okEnv_def emptyWorld_def cubeModel_def defaultViews_part000_def
      prepare_def cleanup_index1_def viewStep_index1_def cubeRenders_def)

theorem render_one_result_per_view_witness:
  "render_part000 okEnv emptyWorld cubeModel = (emptyWorld, Inr cubeRenders)
 \<and> render_part001 okEnv emptyWorld cubeModel = (emptyWorld, Inr cubeRenders)
 \<and> render_index1 okEnv emptyWorld cubeModel = (emptyWorld, Inr cubeRenders)
 \<and> length cubeRenders = length (views cubeModel)
 \<and> map view cubeRenders = map name (views cubeModel)"
  using render_one_result_per_view [of okEnv emptyWorld cubeModel emptyWorld cubeRenders
      okEnv emptyWorld cubeModel emptyWorld cubeRenders
      okEnv emptyWorld cubeModel emptyWorld cubeRenders]
    render_part000_cube render_part001_cube render_index1_cube
  by simp

section \<open>Properties of the matchers\<close>

lemma startsWith_iff: "startsWith p s \<longleftrightarrow> take (length p) s = p"
  by (induction p s rule: startsWith.induct) auto

lemma startsWithCI_iff:
  "startsWithCI p s \<longleftrightarrow> map toUpperAscii (take (length p) s) = map toUpperAscii p"
  by (induction p s rule: startsWithCI.induct) auto

lemma startsWithCI_length: "startsWithCI p s \<Longrightarrow> length p \<le> length s"
  by (induction p s rule: startsWithCI.induct) (auto split: if_splits)

lemma startsWith_length: "startsWith p s \<Longrightarrow> length p \<le> length s"
  by (induction p s rule: startsWith.induct) (auto split: if_splits)

lemma lit_length: "lit ci p s = Some r \<Longrightarrow> length p \<le> length s \<and> r = drop (length p) s"
  by (auto simp: lit_def split: if_splits dest: startsWith_length startsWithCI_length)

lemma lit_append: "length p \<le> length s \<Longrightarrow> lit ci p (s @ t) \<noteq> None \<longleftrightarrow> lit ci p s \<noteq> None"
  by (auto simp: lit_def startsWith_iff startsWithCI_iff)

lemma lit_take: "lit ci p s \<noteq> None \<Longrightarrow> lit ci p (take (length p) s) \<noteq> None"
  by (auto simp: lit_def startsWith_iff startsWithCI_iff split: if_splits)

lemma search_None_iff: "search m s = None \<longleftrightarrow> (\<forall>i<Suc (length s). m (drop i s) = None)"
  by (induction s) (auto simp: All_less_Suc2 split: option.splits)

lemma search_first:
  "i \<le> length s \<Longrightarrow> m (drop i s) = Some x \<Longrightarrow> (\<forall>j<i. m (drop j s) = None) \<Longrightarrow> search m s = Some x"
proof (induction s arbitrary: i)
  case Nil
  then show ?case by simp
next
  case (Cons c cs)
  show ?case
  proof (cases i)
    case 0
    with Cons.prems show ?thesis by simp
  next
    case (Suc k)
    with Cons.prems have "m (c # cs) = None" by auto
    moreover have "\<forall>j<k. m (drop j cs) = None"
      using Cons.prems Suc by (auto simp: All_less_Suc2)
    then have "search m cs = Some x"
      using Cons.IH [of k] Cons.prems Suc by auto
    ultimately show ?thesis by simp
  qed
qed


lemma lazyUntil_first:
  "n \<le> length s \<Longrightarrow> k (drop n s) \<Longrightarrow> (\<forall>j<n. \<not> k (drop j s)) \<Longrightarrow>
   lazyUntil k s = Some (take n s, drop n s)"
proof (induction s arbitrary: n)
  case Nil
  then show ?case by simp
next
  case (Cons c cs)
  show ?case
  proof (cases n)
    case 0
    with Cons.prems show ?thesis by simp
  next
    case (Suc l)
    with Cons.prems have "\<not> k (c # cs)" by auto
    moreover have "\<forall>j<l. \<not> k (drop j cs)"
      using Cons.prems Suc by (auto simp: All_less_Suc2)
    then have "lazyUntil k cs = Some (take l cs, drop l cs)"
      using Cons.IH [of l] Cons.prems Suc by auto
    ultimately show ?thesis using Suc by simp
  qed
qed

lemma lazyUntil_None_iff: "lazyUntil k s = None \<longleftrightarrow> (\<forall>i<Suc (length s). \<not> k (drop i s))"
  by (induction s) (auto simp: All_less_Suc2)

lemma firstAt_iff: "firstAt ci p s i \<longleftrightarrow> occursAt ci p s i \<and> (\<forall>j<i. \<not> occursAt ci p s j)"
  by (auto simp: firstAt_def list_all_iff)

lemma firstViewsEnd_iff:
  "firstViewsEnd s n \<longleftrightarrow> n \<le> length s \<and> viewsEnd (drop n s) \<and> (\<forall>j<n. \<not> viewsEnd (drop j s))"
  by (auto simp: firstViewsEnd_def list_all_iff)

lemma occursAt_length: "occursAt ci p s i \<Longrightarrow> p \<noteq> [] \<Longrightarrow> i + length p \<le> length s"
  using lit_length [of ci p "drop i s"] by (cases p) (auto simp: occursAt_def)

lemma occursAt_rest: "occursAt ci p s i \<Longrightarrow> lit ci p (drop i s) = Some (drop (i + length p) s)"
  using lit_length [of ci p "drop i s"] by (auto simp: occursAt_def add.commute)

lemma occursAt_append:
  "i + length p \<le> length s \<Longrightarrow> occursAt ci p (s @ t) i \<longleftrightarrow> occursAt ci p s i"
  using lit_append [of p "drop i s" ci t] by (simp add: occursAt_def)

lemma firstAt_append:
  assumes "firstAt ci p s i" "p \<noteq> []"
  shows "firstAt ci p (s @ t) i"
proof -
  from assms have i: "i + length p \<le> length s" by (auto simp: firstAt_iff dest: occursAt_length)
  then have "\<forall>j\<le>i. occursAt ci p (s @ t) j \<longleftrightarrow> occursAt ci p s j"
    by (auto intro!: occursAt_append)
  with assms show ?thesis by (auto simp: firstAt_iff)
qed

lemma codeMatch_first:
  assumes o: "firstAt ci ''<openscad>'' r i"
    and c: "firstAt ci ''</openscad>'' (drop (i + 10) r) n"
  shows "codeMatch ci r = Some (take n (drop (i + 10) r))"
proof -
  let ?k = "\<lambda>t. lit ci ''</openscad>'' t \<noteq> None"
  let ?rest = "drop (i + 10) r"
  from o have oi: "occursAt ci ''<openscad>'' r i" and before: "\<forall>j<i. \<not> occursAt ci ''<openscad>'' r j"
    by (auto simp: firstAt_iff)
  from c have cn: "occursAt ci ''</openscad>'' ?rest n"
    and cbefore: "\<forall>j<n. \<not> occursAt ci ''</openscad>'' ?rest j"
    by (auto simp: firstAt_iff)
  have lp: "length ''<openscad>'' = 10" by simp
  have len: "i \<le> length r" using occursAt_length [OF oi] by simp
  have nlen: "n \<le> length ?rest" using occursAt_length [OF cn] by simp
  have l: "lit ci ''<openscad>'' (drop i r) = Some ?rest"
    using occursAt_rest [OF oi, unfolded lp] .
  have "lazyUntil ?k ?rest = Some (take n ?rest, drop n ?rest)"
    using lazyUntil_first [of n ?rest ?k] nlen cn cbefore by (simp add: occursAt_def)
  then have at: "codeAt ci (drop i r) = Some (take n ?rest)"
    using l by (simp add: codeAt_def)
  have none: "\<forall>j<i. codeAt ci (drop j r) = None"
    using before by (auto simp: codeAt_def occursAt_def)
  show ?thesis
    unfolding codeMatch_def using search_first [OF len at none] .
qed

lemma viewsMatch_first:
  assumes v: "firstAt True ''views:'' r i"
    and e: "firstViewsEnd (drop (i + 6) r) n"
  shows "viewsMatch r = Some (take n (drop (i + 6) r))"
proof -
  let ?rest = "drop (i + 6) r"
  from v have vi: "occursAt True ''views:'' r i" and before: "\<forall>j<i. \<not> occursAt True ''views:'' r j"
    by (auto simp: firstAt_iff)
  have lp: "length ''views:'' = 6" by simp
  have len: "i \<le> length r" using occursAt_length [OF vi] by simp
  have l: "lit True ''views:'' (drop i r) = Some ?rest"
    using occursAt_rest [OF vi, unfolded lp] .
  have "lazyUntil viewsEnd ?rest = Some (take n ?rest, drop n ?rest)"
    using lazyUntil_first [of n ?rest viewsEnd] e by (simp add: firstViewsEnd_iff)
  then have at: "viewsAt (drop i r) = Some (take n ?rest)"
    using l by (simp add: viewsAt_def)
  have none: "\<forall>j<i. viewsAt (drop j r) = None"
    using before by (auto simp: viewsAt_def occursAt_def)
  show ?thesis
    unfolding viewsMatch_def using search_first [OF len at none] .
qed

lemma codeMatch_None_iff: "codeMatch ci r = None \<longleftrightarrow> \<not> hasCodeBlock ci r"
proof
  assume none: "codeMatch ci r = None"
  show "\<not> hasCodeBlock ci r"
  proof
    assume "hasCodeBlock ci r"
    then obtain pre opn body cls post where r: "r = pre @ opn @ body @ cls @ post"
      and o: "length opn = 10" "lit ci ''<openscad>'' opn \<noteq> None"
      and c: "length cls = 11" "lit ci ''</openscad>'' cls \<noteq> None"
      by (auto simp: hasCodeBlock_def)
    have "lit ci ''<openscad>'' (drop (length pre) r) \<noteq> None"
      using o lit_append [of "''<openscad>''" opn ci "body @ cls @ post"] by (simp add: r)
    then obtain rest where rest: "lit ci ''<openscad>'' (drop (length pre) r) = Some rest"
      by auto
    then have rest_eq: "rest = body @ cls @ post"
      using lit_length [OF rest] o by (simp add: r)
    have "lit ci ''</openscad>'' (drop (length body) rest) \<noteq> None"
      using c lit_append [of "''</openscad>''" cls ci post] by (simp add: rest_eq)
    then have "lazyUntil (\<lambda>t. lit ci ''</openscad>'' t \<noteq> None) rest \<noteq> None"
      by (auto simp: lazyUntil_None_iff rest_eq intro!: exI [of _ "length body"])
    then have "codeAt ci (drop (length pre) r) \<noteq> None"
      using rest by (auto simp: codeAt_def)
    moreover have "length pre < Suc (length r)" by (simp add: r)
    ultimately show False using none by (auto simp: codeMatch_def search_None_iff)
  qed
next
  assume no: "\<not> hasCodeBlock ci r"
  show "codeMatch ci r = None"
  proof (rule ccontr)
    assume "codeMatch ci r \<noteq> None"
    then obtain i where i: "i < Suc (length r)" "codeAt ci (drop i r) \<noteq> None"
      by (auto simp: codeMatch_def search_None_iff)
    then obtain rest where rest: "lit ci ''<openscad>'' (drop i r) = Some rest"
      and lz: "lazyUntil (\<lambda>t. lit ci ''</openscad>'' t \<noteq> None) rest \<noteq> None"
      by (auto simp: codeAt_def split: Option.bind_splits)
    from lz obtain n where n: "n < Suc (length rest)" "lit ci ''</openscad>'' (drop n rest) \<noteq> None"
      by (auto simp: lazyUntil_None_iff)
    have lo: "length ''<openscad>'' = 10" and lc: "length ''</openscad>'' = 11" by simp_all
    from lit_length [OF rest, unfolded lo] have r1: "10 \<le> length (drop i r)" "rest = drop 10 (drop i r)"
      by blast+
    from n(2) obtain rest2 where rest2: "lit ci ''</openscad>'' (drop n rest) = Some rest2" by auto
    from lit_length [OF rest2, unfolded lc] have r2: "11 \<le> length (drop n rest)" by blast
    let ?opn = "take 10 (drop i r)"
    let ?cls = "take 11 (drop n rest)"
    have "r = take i r @ ?opn @ take n rest @ ?cls @ drop 11 (drop n rest)"
      using r1 by (metis append_take_drop_id)
    moreover have "lit ci ''<openscad>'' ?opn \<noteq> None"
      using lit_take [of ci "''<openscad>''" "drop i r", unfolded lo] rest by simp
    moreover have "lit ci ''</openscad>'' ?cls \<noteq> None"
      using lit_take [of ci "''</openscad>''" "drop n rest", unfolded lc] rest2 by simp
    moreover have "length ?opn = 10" "length ?cls = 11" using r1 r2 by auto
    ultimately have "hasCodeBlock ci r" unfolding hasCodeBlock_def by blast
    with no show False by simp
  qed
qed

section \<open>Properties of the response parser\<close>

text \<open>
  C9. When the first opening marker of the response is followed by a closing marker, parsing
  succeeds and the code of the result is the trimmed text between the first opening marker
  and the first closing marker after it, whatever follows: a later code section is not
  code. The markers are matched without regard to case in \<^verbatim>\<open>part_000\<close> and
  \<^verbatim>\<open>part_001\<close>, and literally in the first revision of \<^verbatim>\<open>index.ts\<close>.
\<close>

theorem code_is_first_section:
  "(r = pre @ opn @ body @ cls @ post \<and> length opn = 10
      \<and> firstAt True ''<openscad>'' r (length pre)
      \<and> firstAt True ''</openscad>'' (body @ cls @ post) (length body)
    \<longrightarrow> (\<exists>m. parseResponse_part000 r = Inr m \<and> code m = trim body)
      \<and> (\<exists>m. parseResponse_part001 r = Inr m \<and> code m = trim body))
 \<and> (r = pre @ opn @ body @ cls @ post \<and> length opn = 10
      \<and> firstAt False ''<openscad>'' r (length pre)
      \<and> firstAt False ''</openscad>'' (body @ cls @ post) (length body)
    \<longrightarrow> (\<exists>m. parseResponse_index1 r = Inr m \<and> code m = trim body))"
proof -
  have m: "codeMatch ci r = Some body"
    if "r = pre @ opn @ body @ cls @ post" "length opn = 10"
      "firstAt ci ''<openscad>'' r (length pre)"
      "firstAt ci ''</openscad>'' (body @ cls @ post) (length body)" for ci
    using codeMatch_first [of ci r "length pre" "length body"] that by simp
  show ?thesis
    using m [of True] m [of False]
    by (auto simp: parseResponse_part000_def parseResponse_part001_def parseResponse_index1_def Let_def)
qed

theorem code_is_first_section_witness:
  "twoSections = [] @ ''<openscad>'' @ '' cube(20); '' @ ''</openscad>''
                   @ '' or <openscad>sphere(5);</openscad>''
 \<and> firstAt True ''<openscad>'' twoSections (length ([] :: string))
 \<and> firstAt True ''</openscad>''
       ('' cube(20); '' @ ''</openscad>'' @ '' or <openscad>sphere(5);</openscad>'')
       (length '' cube(20); '')
 \<and> firstAt False ''<openscad>'' twoSections (length ([] :: string))
 \<and> firstAt False ''</openscad>''
       ('' cube(20); '' @ ''</openscad>'' @ '' or <openscad>sphere(5);</openscad>'')
       (length '' cube(20); '')
 \<and> (\<exists>m. parseResponse_part000 twoSections = Inr m \<and> code m = ''cube(20);'')
 \<and> (\<exists>m. parseResponse_part001 twoSections = Inr m \<and> code m = ''cube(20);'')
 \<and> (\<exists>m. parseResponse_index1 twoSections = Inr m \<and> code m = ''cube(20);'')"
proof -
  let ?body = "'' cube(20); ''"
  let ?post = "'' or <openscad>sphere(5);</openscad>''"
  have h1: "twoSections = [] @ ''<openscad>'' @ ?body @ ''</openscad>'' @ ?post"
    by code_simp
  have h2: "firstAt True ''<openscad>'' twoSections (length ([] :: string))"
    by code_simp
  have h3: "firstAt True ''</openscad>'' (?body @ ''</openscad>'' @ ?post) (length ?body)"
    by code_simp
  have h4: "firstAt False ''<openscad>'' twoSections (length ([] :: string))"
    by code_simp
  have h5: "firstAt False ''</openscad>'' (?body @ ''</openscad>'' @ ?post) (length ?body)"
    by code_simp
  have h6: "length ''<openscad>'' = 10" by simp
  have t: "trim ?body = ''cube(20);''" by code_simp
  from code_is_first_section [of twoSections "[]" "''<openscad>''" ?body "''</openscad>''" ?post]
    h1 h2 h3 h4 h5 h6
  have "(\<exists>m. parseResponse_part000 twoSections = Inr m \<and> code m = trim ?body)
      \<and> (\<exists>m. parseResponse_part001 twoSections = Inr m \<and> code m = trim ?body)
      \<and> (\<exists>m. parseResponse_index1 twoSections = Inr m \<and> code m = trim ?body)"
    by blast
  then show ?thesis unfolding t using h1 h2 h3 h4 h5 by blast
qed

text \<open>
  C10. The views section starts after the first \<^verbatim>\<open>views:\<close> (in any case) and ends before
  the first blank line or \<^verbatim>\<open></\<close> after it, or at the end of the input. What follows that
  point does not reach the parser of the entries: two responses that agree up to it have the
  same parsed views, and so the same views in the result.
\<close>

theorem views_section_extent:
  "length v = 6 \<and> firstAt True ''views:'' (pre @ v) (length pre)
     \<and> firstViewsEnd (body @ rest) (length body) \<and> firstViewsEnd (body @ rest') (length body)
   \<longrightarrow> viewsMatch (pre @ v @ body @ rest) = Some body
     \<and> parsedViews_part000 (pre @ v @ body @ rest) = parsedViews_part000 (pre @ v @ body @ rest')
     \<and> parsedViews_part001 (pre @ v @ body @ rest) = parsedViews_part001 (pre @ v @ body @ rest')
     \<and> (\<forall>m m'. parseResponse_part000 (pre @ v @ body @ rest) = Inr m
           \<and> parseResponse_part000 (pre @ v @ body @ rest') = Inr m' \<longrightarrow> views m = views m')
     \<and> (\<forall>m m'. parseResponse_part001 (pre @ v @ body @ rest) = Inr m
           \<and> parseResponse_part001 (pre @ v @ body @ rest') = Inr m' \<longrightarrow> views m = views m')
     \<and> (\<forall>m m'. parseResponse_index1 (pre @ v @ body @ rest) = Inr m
           \<and> parseResponse_index1 (pre @ v @ body @ rest') = Inr m' \<longrightarrow> views m = views m')"
proof (intro impI, elim conjE)
  assume v: "length v = 6" and f: "firstAt True ''views:'' (pre @ v) (length pre)"
    and e: "firstViewsEnd (body @ rest) (length body)"
    and e': "firstViewsEnd (body @ rest') (length body)"
  have vm: "viewsMatch (pre @ v @ body @ t) = Some body"
    if "firstViewsEnd (body @ t) (length body)" for t
  proof -
    have "firstAt True ''views:'' ((pre @ v) @ body @ t) (length pre)"
      using firstAt_append [OF f] by simp
    then show ?thesis
      using viewsMatch_first [of "pre @ v @ body @ t" "length pre" "length body"] that v
      by simp
  qed
  have a: "viewsMatch (pre @ v @ body @ rest) = Some body" using vm [OF e] .
  have b: "viewsMatch (pre @ v @ body @ rest') = Some body" using vm [OF e'] .
  have p0: "parsedViews_part000 (pre @ v @ body @ rest) = parsedViews_part000 (pre @ v @ body @ rest')"
    by (simp only: parsedViews_part000_def a b)
  have p1: "parsedViews_part001 (pre @ v @ body @ rest) = parsedViews_part001 (pre @ v @ body @ rest')"
    by (simp only: parsedViews_part001_def entryResults_part001_def a b)
  have r0: "views m = views m'"
    if "parseResponse_part000 (pre @ v @ body @ rest) = Inr m"
       "parseResponse_part000 (pre @ v @ body @ rest') = Inr m'" for m m'
    using that p0 by (auto simp: parseResponse_part000_def Let_def split: option.splits)
  have r1: "views m = views m'"
    if "parseResponse_part001 (pre @ v @ body @ rest) = Inr m"
       "parseResponse_part001 (pre @ v @ body @ rest') = Inr m'" for m m'
    using that p1 by (auto simp: parseResponse_part001_def Let_def split: option.splits)
  have r2: "views m = views m'"
    if "parseResponse_index1 (pre @ v @ body @ rest) = Inr m"
       "parseResponse_index1 (pre @ v @ body @ rest') = Inr m'" for m m'
    using that by (auto simp: parseResponse_index1_def a b split: option.splits)
  show "viewsMatch (pre @ v @ body @ rest) = Some body
     \<and> parsedViews_part000 (pre @ v @ body @ rest) = parsedViews_part000 (pre @ v @ body @ rest')
     \<and> parsedViews_part001 (pre @ v @ body @ rest) = parsedViews_part001 (pre @ v @ body @ rest')
     \<and> (\<forall>m m'. parseResponse_part000 (pre @ v @ body @ rest) = Inr m
           \<and> parseResponse_part000 (pre @ v @ body @ rest') = Inr m' \<longrightarrow> views m = views m')
     \<and> (\<forall>m m'. parseResponse_part001 (pre @ v @ body @ rest) = Inr m
           \<and> parseResponse_part001 (pre @ v @ body @ rest') = Inr m' \<longrightarrow> views m = views m')
     \<and> (\<forall>m m'. parseResponse_index1 (pre @ v @ body @ rest) = Inr m
           \<and> parseResponse_index1 (pre @ v @ body @ rest') = Inr m' \<longrightarrow> views m = views m')"
    using a p0 p1 r0 r1 r2 by blast
qed

lemma cut_part000:
  "parseResponse_part000 (sectionPre @ ''Views:'' @ sectionBody @ []) =
     Inr \<lparr> code = ''cube(20);'', views = defaultViews_part000 \<rparr>"
  by code_simp

lemma cut_part001:
  "parseResponse_part001 (sectionPre @ ''Views:'' @ sectionBody @ []) =
     Inr \<lparr> code = ''cube(20);'', views = defaultViews_part001 \<rparr>"
  by code_simp

lemma cut_index1:
  \<open>parseResponse_index1 (sectionPre @ ''Views:'' @ sectionBody @ []) =
     Inr \<lparr> code = ''cube(20);'',
           views = [\<lparr> name = ''front'', angle = [Fin 0, Fin 0, Fin 0], distance = 100 \<rparr>] \<rparr>\<close>
  by code_simp

lemma uncut_code:
  "codeMatch True (sectionPre @ ''Views:'' @ sectionBody @ sectionRest) = Some ''cube(20);''
 \<and> codeMatch False (sectionPre @ ''Views:'' @ sectionBody @ sectionRest) = Some ''cube(20);''"
  by code_simp

theorem views_section_extent_witness:
  "length ''Views:'' = 6
 \<and> firstAt True ''views:'' (sectionPre @ ''Views:'') (length sectionPre)
 \<and> firstViewsEnd (sectionBody @ sectionRest) (length sectionBody)
 \<and> firstViewsEnd (sectionBody @ []) (length sectionBody)
 \<and> viewsMatch (sectionPre @ ''Views:'' @ sectionBody @ sectionRest) = Some sectionBody
 \<and> map_sum id views (parseResponse_part000 (sectionPre @ ''Views:'' @ sectionBody @ sectionRest))
     = Inr defaultViews_part000
 \<and> map_sum id views (parseResponse_part001 (sectionPre @ ''Views:'' @ sectionBody @ sectionRest))
     = Inr defaultViews_part001
 \<and> map_sum id (\<lambda>m. map name (views m))
       (parseResponse_index1 (sectionPre @ ''Views:'' @ sectionBody @ sectionRest))
     = Inr [''front'']"
proof -
  let ?whole = "sectionPre @ ''Views:'' @ sectionBody @ sectionRest"
  have h1: "length ''Views:'' = 6" by simp
  have h2: "firstAt True ''views:'' (sectionPre @ ''Views:'') (length sectionPre)"
    by code_simp
  have h3: "firstViewsEnd (sectionBody @ sectionRest) (length sectionBody)"
    by code_simp
  have h4: "firstViewsEnd (sectionBody @ []) (length sectionBody)"
    by code_simp
  note t = views_section_extent [of "''Views:''" sectionPre sectionBody sectionRest "[]",
      rule_format, OF conjI [OF h1 conjI [OF h2 conjI [OF h3 h4]]]]
  obtain m0 where m0: "parseResponse_part000 ?whole = Inr m0"
    using uncut_code by (simp add: parseResponse_part000_def Let_def)
  obtain m1 where m1: "parseResponse_part001 ?whole = Inr m1"
    using uncut_code by (simp add: parseResponse_part001_def Let_def)
  obtain m2 where m2: "parseResponse_index1 ?whole = Inr m2"
    using uncut_code by (simp add: parseResponse_index1_def)
  have "views m0 = views \<lparr> code = ''cube(20);'', views = defaultViews_part000 \<rparr>"
    using t m0 cut_part000 by blast
  then have v0: "views m0 = defaultViews_part000" by simp
  have "views m1 = views \<lparr> code = ''cube(20);'', views = defaultViews_part001 \<rparr>"
    using t m1 cut_part001 by blast
  then have v1: "views m1 = defaultViews_part001" by simp
  have "views m2 = views \<lparr> code = ''cube(20);'',
      views = [\<lparr> name = ''front'', angle = [Fin 0, Fin 0, Fin 0], distance = 100 \<rparr>] \<rparr>"
    using t m2 cut_index1 by blast
  then have v2: "map name (views m2) = [''front'']" by simp
  have vm: "viewsMatch ?whole = Some sectionBody" using t by blast
  show ?thesis
    unfolding m0 m1 m2 using h1 h2 h3 h4 vm v0 v1 v2 by simp
qed

subsection \<open>The parser on the concrete responses\<close>

lemma threeViews_code: "codeMatch True threeViews = Some ([nl] @ ''cube(20);'' @ [nl])"
  by code_simp

lemma threeViews_part001: "parsedViews_part001 threeViews = threeParsed"
  by code_simp

lemma threeViews_part000: "parsedViews_part000 threeViews = threeParsed"
  by code_simp





lemma trim_cube: "trim ([nl] @ ''cube(20);'' @ [nl]) = ''cube(20);''"
  by code_simp

subsection \<open>What an accepted entry looks like\<close>




lemma toLowerCase_nonempty: "toLowerCase s = [] \<longleftrightarrow> s = []"
  by (simp add: toLowerCase_def)















lemma threeViews_parse_part000:
  "parseResponse_part000 threeViews = Inr \<lparr> code = ''cube(20);'', views = threeParsed \<rparr>"
  using threeViews_code threeViews_part000 trim_cube
  by (simp add: parseResponse_part000_def threeParsed_def)

lemma threeViews_parse_part001:
  "parseResponse_part001 threeViews = Inr \<lparr> code = ''cube(20);'', views = defaultViews_part001 \<rparr>"
  using threeViews_code threeViews_part001 trim_cube
  by (simp add: parseResponse_part001_def threeParsed_def)



text \<open>
  C1, as amended. For a response with a code section, \<^verbatim>\<open>part_000\<close> returns the parsed views
  when there are at least three of them and its three default views otherwise;
  \<^verbatim>\<open>part_001\<close> returns the parsed views when there are more than three of them and its
  seven default views otherwise. The result is never a mix of the two.
\<close>

theorem views_all_or_default:
  "(hasCodeBlock True r \<longrightarrow>
      (\<exists>c. parseResponse_part000 r =
         Inr \<lparr> code = c,
               views = (if 3 \<le> length (parsedViews_part000 r) then parsedViews_part000 r
                        else defaultViews_part000) \<rparr>))
 \<and> (hasCodeBlock True r \<longrightarrow>
      (\<exists>c. parseResponse_part001 r =
         Inr \<lparr> code = c,
               views = (if 3 < length (parsedViews_part001 r) then parsedViews_part001 r
                        else defaultViews_part001) \<rparr>))"
proof -
  have "\<exists>m. codeMatch True r = Some m" if "hasCodeBlock True r"
    using that codeMatch_None_iff [of True r] by auto
  then show ?thesis
    by (auto simp: parseResponse_part000_def parseResponse_part001_def Let_def)
qed

lemma threeViews_hasCodeBlock: "hasCodeBlock True threeViews"
  using codeMatch_None_iff [of True threeViews] threeViews_code by simp


theorem views_all_or_default_witness:
  "hasCodeBlock True threeViews
 \<and> map_sum id views (parseResponse_part000 threeViews) = Inr threeParsed
 \<and> map_sum id views (parseResponse_part001 threeViews) = Inr defaultViews_part001"
proof -
  have l: "length threeParsed = 3" by (simp add: threeParsed_def)
  from views_all_or_default [of threeViews] threeViews_hasCodeBlock
  have "\<exists>c. parseResponse_part000 threeViews = Inr \<lparr> code = c, views = threeParsed \<rparr>"
    and "\<exists>c. parseResponse_part001 threeViews = Inr \<lparr> code = c, views = defaultViews_part001 \<rparr>"
    by (simp_all add: threeViews_part000 threeViews_part001 l)
  then show ?thesis using threeViews_hasCodeBlock by auto
qed

text \<open>
  C1 as stated fails in \<^verbatim>\<open>part_001\<close>: with exactly three parsed views the result holds the
  seven default views.
\<close>

theorem threshold_counterexample:
  "length (parsedViews_part001 threeViews) = 3
 \<and> parseResponse_part001 threeViews = Inr \<lparr> code = ''cube(20);'', views = defaultViews_part001 \<rparr>
 \<and> defaultViews_part001 \<noteq> parsedViews_part001 threeViews"
  using threeViews_parse_part001
  by (simp add: threeViews_part001 threeParsed_def defaultViews_part001_def)













lemma search_found: "i \<le> length s \<Longrightarrow> m (drop i s) \<noteq> None \<Longrightarrow> search m s \<noteq> None"
  unfolding search_None_iff by (meson less_Suc_eq_le)

lemma yamlMatch_iff: "yamlMatch r \<longleftrightarrow> hasViewsList r"
proof
  assume "yamlMatch r"
  then obtain i where i: "i < Suc (length r)" "yamlAt (drop i r)"
    by (auto simp: yamlMatch_def search_None_iff split: if_splits)
  then obtain rest where rest: "lit False ''views:'' (drop i r) = Some rest"
    and l: "search (lit False (nl # ''  - '')) rest \<noteq> None"
    by (auto simp: yamlAt_def split: option.splits)
  have lv: "length ''views:'' = 6" by simp
  from lit_length [OF rest, unfolded lv] have r: "rest = drop (i + 6) r"
    by (simp add: add.commute)
  from l obtain k where "lit False (nl # ''  - '') (drop k rest) \<noteq> None"
    by (auto simp: search_None_iff)
  then have "occursAt False (nl # ''  - '') r (i + 6 + k)"
    by (simp add: occursAt_def r add.commute)
  moreover have "occursAt False ''views:'' r i"
    using rest by (simp add: occursAt_def)
  ultimately show "hasViewsList r"
    unfolding hasViewsList_def by (intro exI [of _ i] exI [of _ "i + 6 + k"]) simp
next
  assume "hasViewsList r"
  then obtain i j where i: "occursAt False ''views:'' r i" and ij: "i + 6 \<le> j"
    and j: "occursAt False (nl # ''  - '') r j"
    by (auto simp: hasViewsList_def)
  have lv: "length ''views:'' = 6" by simp
  have rest: "lit False ''views:'' (drop i r) = Some (drop (i + 6) r)"
    using occursAt_rest [OF i, unfolded lv] .
  have ilen: "i \<le> length r" using occursAt_length [OF i] by simp
  have jlen: "j \<le> length r" using occursAt_length [OF j] by simp
  have "lit False (nl # ''  - '') (drop (j - (i + 6)) (drop (i + 6) r)) \<noteq> None"
    using j ij by (simp add: occursAt_def)
  moreover have "j - (i + 6) \<le> length (drop (i + 6) r)" using jlen ij by simp
  ultimately have "search (lit False (nl # ''  - '')) (drop (i + 6) r) \<noteq> None"
    using search_found [of "j - (i + 6)" "drop (i + 6) r" "lit False (nl # ''  - '')"] by blast
  then have "yamlAt (drop i r)" using rest by (simp add: yamlAt_def)
  then show "yamlMatch r"
    unfolding yamlMatch_def
    using search_found [of i r "\<lambda>s. if yamlAt s then Some s else None"] ilen by simp
qed

text \<open>
  C2, as amended. In \<^verbatim>\<open>part_000\<close>, \<^verbatim>\<open>part_001\<close> and the first revision of
  \<^verbatim>\<open>index.ts\<close>, \<^verbatim>\<open>parseResponse\<close> throws exactly when the response has no code section
  (an opening marker followed by a closing marker, compared without regard to case in
  \<^verbatim>\<open>part_000\<close> and \<^verbatim>\<open>part_001\<close> and literally in \<^verbatim>\<open>index.ts\<close>), with the message for
  the missing code section, and returns a model in every other case. The second revision of
  \<^verbatim>\<open>index.ts\<close> throws in that case too, and also when the response has a code section but
  no list of views after a marker \<^verbatim>\<open>views:\<close>; with both it returns whatever the stage that
  reads the views returns.
\<close>

theorem parse_fails_iff_no_code:
  "((\<exists>e. parseResponse_part000 r = Inl e) \<longleftrightarrow> \<not> hasCodeBlock True r)
 \<and> (\<not> hasCodeBlock True r \<longrightarrow>
      parseResponse_part000 r = Inl (Error ''Missing OpenSCAD code section''))
 \<and> ((\<exists>e. parseResponse_part001 r = Inl e) \<longleftrightarrow> \<not> hasCodeBlock True r)
 \<and> (\<not> hasCodeBlock True r \<longrightarrow>
      parseResponse_part001 r = Inl (Error ''Missing OpenSCAD code section''))
 \<and> ((\<exists>e. parseResponse_index1 r = Inl e) \<longleftrightarrow> \<not> hasCodeBlock False r)
 \<and> (\<not> hasCodeBlock False r \<longrightarrow>
      parseResponse_index1 r = Inl (Error (''Could not find OpenSCAD code section. ''
                                          @ ''Response must include <openscad> tags.'')))
 \<and> (\<not> hasCodeBlock False r \<longrightarrow>
      parseResponse_index2 y r = Inl (Error (''Could not find OpenSCAD code section. ''
                                            @ ''Response must include <openscad> tags.'')))
 \<and> (hasCodeBlock False r \<and> \<not> hasViewsList r \<longrightarrow>
      parseResponse_index2 y r = Inl (Error ''Could not find properly formatted views section''))
 \<and> (hasCodeBlock False r \<and> hasViewsList r \<longrightarrow> (\<exists>c. parseResponse_index2 y r = y c r))"
proof -
  have n: "codeMatch ci r = None" if "\<not> hasCodeBlock ci r" for ci
    using that codeMatch_None_iff [of ci r] by simp
  have s: "\<exists>m. codeMatch ci r = Some m" if "hasCodeBlock ci r" for ci
    using that codeMatch_None_iff [of ci r] by auto
  have p0: "(\<exists>e. parseResponse_part000 r = Inl e) \<longleftrightarrow> \<not> hasCodeBlock True r"
    using n [of True] s [of True] by (auto simp: parseResponse_part000_def Let_def)
  have p1: "(\<exists>e. parseResponse_part001 r = Inl e) \<longleftrightarrow> \<not> hasCodeBlock True r"
    using n [of True] s [of True] by (auto simp: parseResponse_part001_def Let_def)
  have i1: "(\<exists>e. parseResponse_index1 r = Inl e) \<longleftrightarrow> \<not> hasCodeBlock False r"
    using n [of False] s [of False] by (auto simp: parseResponse_index1_def)
  have e0: "parseResponse_part000 r = Inl (Error ''Missing OpenSCAD code section'')"
    if "\<not> hasCodeBlock True r"
    using n [OF that] by (simp add: parseResponse_part000_def)
  have e1: "parseResponse_part001 r = Inl (Error ''Missing OpenSCAD code section'')"
    if "\<not> hasCodeBlock True r"
    using n [OF that] by (simp add: parseResponse_part001_def)
  have e2: "parseResponse_index1 r = Inl (Error (''Could not find OpenSCAD code section. ''
                                          @ ''Response must include <openscad> tags.''))"
    if "\<not> hasCodeBlock False r"
    using n [OF that] by (simp add: parseResponse_index1_def)
  have e3: "parseResponse_index2 y r = Inl (Error (''Could not find OpenSCAD code section. ''
                                          @ ''Response must include <openscad> tags.''))"
    if "\<not> hasCodeBlock False r"
    using n [OF that] by (simp add: parseResponse_index2_def)
  have e4: "parseResponse_index2 y r = Inl (Error ''Could not find properly formatted views section'')"
    if "hasCodeBlock False r" "\<not> hasViewsList r"
    using s [OF that(1)] that(2) by (auto simp: parseResponse_index2_def yamlMatch_iff)
  have e5: "\<exists>c. parseResponse_index2 y r = y c r"
    if "hasCodeBlock False r" "hasViewsList r"
    using s [OF that(1)] that(2) by (auto simp: parseResponse_index2_def yamlMatch_iff)
  show ?thesis
    using p0 p1 i1 e0 e1 e2 e3 e4 e5 by blast
qed

lemma noCode_code: "codeMatch True noCode = None \<and> codeMatch False noCode = None"
  by code_simp

lemma codeOnly_code:
  "codeMatch True codeOnly = Some ''cube(20);'' \<and> codeMatch False codeOnly = Some ''cube(20);''"
  by code_simp

lemma codeOnly_yaml: "\<not> yamlMatch codeOnly"
  by code_simp

lemma yamlViews_code: "codeMatch False yamlViews = Some ''cube(20);''"
  by code_simp

lemma yamlViews_yaml: "yamlMatch yamlViews"
  by code_simp

lemma codeOnly_part001:
  "parseResponse_part001 codeOnly = Inr \<lparr> code = ''cube(20);'', views = defaultViews_part001 \<rparr>"
  by code_simp

theorem parse_fails_iff_no_code_witness:
  "\<not> hasCodeBlock True noCode \<and> \<not> hasCodeBlock False noCode
 \<and> parseResponse_part000 noCode = Inl (Error ''Missing OpenSCAD code section'')
 \<and> parseResponse_part001 noCode = Inl (Error ''Missing OpenSCAD code section'')
 \<and> parseResponse_index1 noCode = Inl (Error (''Could not find OpenSCAD code section. ''
                                          @ ''Response must include <openscad> tags.''))
 \<and> parseResponse_index2 acceptAll noCode =
       Inl (Error (''Could not find OpenSCAD code section. ''
                   @ ''Response must include <openscad> tags.''))
 \<and> hasCodeBlock True codeOnly \<and> hasCodeBlock False codeOnly \<and> \<not> hasViewsList codeOnly
 \<and> (\<exists>m. parseResponse_part000 codeOnly = Inr m)
 \<and> (\<exists>m. parseResponse_part001 codeOnly = Inr m)
 \<and> (\<exists>m. parseResponse_index1 codeOnly = Inr m)
 \<and> parseResponse_index2 acceptAll codeOnly =
       Inl (Error ''Could not find properly formatted views section'')
 \<and> hasCodeBlock False yamlViews \<and> hasViewsList yamlViews
 \<and> (\<exists>c. parseResponse_index2 acceptAll yamlViews = Inr c)"
proof -
  have a: "\<not> hasCodeBlock True noCode" "\<not> hasCodeBlock False noCode"
    using codeMatch_None_iff [of True noCode] codeMatch_None_iff [of False noCode] noCode_code
    by simp_all
  have b: "hasCodeBlock True codeOnly" "hasCodeBlock False codeOnly"
    using codeMatch_None_iff [of True codeOnly] codeMatch_None_iff [of False codeOnly] codeOnly_code
    by simp_all
  have c: "\<not> hasViewsList codeOnly" using codeOnly_yaml by (simp add: yamlMatch_iff)
  have d: "hasCodeBlock False yamlViews"
    using codeMatch_None_iff [of False yamlViews] yamlViews_code by simp
  have e: "hasViewsList yamlViews" using yamlViews_yaml by (simp add: yamlMatch_iff)
  note t1 = parse_fails_iff_no_code [of noCode acceptAll]
  note t2 = parse_fails_iff_no_code [of codeOnly acceptAll]
  note t3 = parse_fails_iff_no_code [of yamlViews acceptAll]
  have f: "\<exists>m. parseResponse_part000 codeOnly = Inr m" "\<exists>m. parseResponse_part001 codeOnly = Inr m"
    "\<exists>m. parseResponse_index1 codeOnly = Inr m"
    using t2 b by (metis sum.exhaust_sel sum.collapse)+
  have g: "\<exists>c. parseResponse_index2 acceptAll yamlViews = Inr c"
    using t3 d e by (auto simp: acceptAll_def)
  show ?thesis
    using a b c d e f g t1 t2 by blast
qed

text \<open>
  C2 as stated fails in the second revision of \<^verbatim>\<open>index.ts\<close>: a response with a code
  section and no views makes \<^verbatim>\<open>parseResponse\<close> throw, while \<^verbatim>\<open>part_001\<close> returns the
  code with the default views.
\<close>

theorem views_required_counterexample:
  "codeMatch False codeOnly = Some ''cube(20);''
 \<and> parseResponse_index2 acceptAll codeOnly =
       Inl (Error ''Could not find properly formatted views section'')
 \<and> parseResponse_part001 codeOnly = Inr \<lparr> code = ''cube(20);'', views = defaultViews_part001 \<rparr>"
  using codeOnly_code codeOnly_yaml codeOnly_part001
  by (simp add: parseResponse_index2_def)

section \<open>Properties of the session\<close>

text \<open>
  C5, as amended. In \<^verbatim>\<open>part_001\<close>, when the persisted session has iterations and the last
  one has no renders, \<^verbatim>\<open>iterateModel\<close> throws the error of the missing renders, sends no
  request and leaves the state file as it is. \<^verbatim>\<open>part_000\<close> has no such test: in the same
  situation it sends the request, with no image in it, and when the answer parses it appends
  an iteration and writes the state file.
\<close>

theorem no_renders_yet:
  "(stateFile w = Some data \<and> jsonParse env data = Some (Some st) \<and> iterations st \<noteq> []
      \<and> renders (last (iterations st)) = []
    \<longrightarrow> (\<exists>w'. iterateModel_part001 env w fb =
               (w', Inl (Error ''No renders found from previous iteration''))
            \<and> stateFile w' = stateFile w \<and> requests w' = requests w))
 \<and> (stateFile w = Some data \<and> jsonParse env data = Some (Some st) \<and> iterations st \<noteq> []
      \<and> renders (last (iterations st)) = []
    \<longrightarrow> requests (fst (iterateModel_part000 env w fb)) =
          requests w @ [Parts (formatIterationMessage_part000 st fb [])]
      \<and> (\<forall>response m. complete env (Parts (formatIterationMessage_part000 st fb [])) = Inr response
             \<and> parseResponse_part000 response = Inr m
           \<longrightarrow> snd (iterateModel_part000 env w fb) = Inr m
             \<and> stateFile (fst (iterateModel_part000 env w fb)) =
                 Some (jsonStringify env (st\<lparr> iterations := iterations st
                    @ [\<lparr> timestamp = now env, icode = code m, renders = [],
                         feedback = Some fb \<rparr>] \<rparr>))))"
  by (auto simp: iterateModel_part001_def iterateModel_part000_def loadState_def Let_def
      finishIteration_def createModel_def addIteration_def split: sum.splits prod.splits)

lemma codeOnly_part000:
  "parseResponse_part000 codeOnly = Inr \<lparr> code = ''cube(20);'', views = defaultViews_part000 \<rparr>"
  by code_simp

theorem no_renders_yet_witness:
  "stateFile sessionWorld = Some ''t0;'' \<and> jsonParse sessionEnv ''t0;'' = Some (Some unrendered)
 \<and> iterations unrendered \<noteq> [] \<and> renders (last (iterations unrendered)) = []
 \<and> (\<exists>w'. iterateModel_part001 sessionEnv sessionWorld ''make the walls thicker'' =
        (w', Inl (Error ''No renders found from previous iteration''))
      \<and> stateFile w' = Some ''t0;'' \<and> requests w' = [])
 \<and> length (requests (fst (iterateModel_part000 sessionEnv sessionWorld ''make the walls thicker''))) = 1"
proof -
  have h: "stateFile sessionWorld = Some ''t0;''"
    "jsonParse sessionEnv ''t0;'' = Some (Some unrendered)"
    "iterations unrendered \<noteq> []" "renders (last (iterations unrendered)) = []"
    by (simp_all add: sessionWorld_def sessionEnv_def unrendered_def)
  have w: "stateFile sessionWorld = Some ''t0;''" "requests sessionWorld = []"
    by (simp_all add: sessionWorld_def)
  note t = no_renders_yet [of sessionWorld "''t0;''" sessionEnv unrendered
      "''make the walls thicker''"]
  have a: "\<exists>w'. iterateModel_part001 sessionEnv sessionWorld ''make the walls thicker'' =
        (w', Inl (Error ''No renders found from previous iteration''))
      \<and> stateFile w' = Some ''t0;'' \<and> requests w' = []"
    using t h w by metis
  have b: "length (requests (fst (iterateModel_part000 sessionEnv sessionWorld
      ''make the walls thicker''))) = 1"
    using t h w by simp
  show ?thesis using h a b by blast
qed

text \<open>
  C5 as stated fails in \<^verbatim>\<open>part_000\<close>: with no renders in the last iteration the call
  returns a model, has sent a request and has written a new state file.
\<close>

theorem unrendered_counterexample:
  "renders (last (iterations unrendered)) = []
 \<and> jsonParse sessionEnv ''t0;'' = Some (Some unrendered)
 \<and> stateFile sessionWorld = Some ''t0;''
 \<and> requests sessionWorld = []
 \<and> snd (iterateModel_part000 sessionEnv sessionWorld ''make the walls thicker'') =
       Inr \<lparr> code = ''cube(20);'', views = defaultViews_part000 \<rparr>
 \<and> length (requests (fst (iterateModel_part000 sessionEnv sessionWorld
       ''make the walls thicker''))) = 1
 \<and> stateFile (fst (iterateModel_part000 sessionEnv sessionWorld ''make the walls thicker'')) =
       Some ''t0;t1;''"
  using codeOnly_part000
  by (simp add: iterateModel_part000_def loadState_def Let_def finishIteration_def
      createModel_def addIteration_def sessionWorld_def sessionEnv_def unrendered_def)

section \<open>Properties of the camera\<close>





section \<open>Failure of a view\<close>

lemma failsAt_iff:
  "failsAt step vs k cause \<longleftrightarrow>
     k < length vs \<and> step k (vs ! k) = Inl cause \<and> (\<forall>j<k. \<not> isl (step j (vs ! j)))"
  by (auto simp: failsAt_def list_all_iff)

lemma failsAt_Cons:
  "failsAt step (v # vs) k cause \<longleftrightarrow>
     (k = 0 \<and> step 0 v = Inl cause)
     \<or> (\<exists>l. k = Suc l \<and> \<not> isl (step 0 v) \<and> failsAt (\<lambda>i. step (Suc i)) vs l cause)"
  by (cases k) (auto simp: failsAt_iff All_less_Suc2)

lemma renderLoop_part001_world: "fst (renderLoop_part001 env i vs rs w) = cleanup w"
  by (induction vs arbitrary: i rs) (auto split: sum.splits)

lemma renderLoop_part000_world: "fst (renderLoop_part000 env i vs rs w) = cleanup w"
  by (induction vs arbitrary: i rs) (auto split: sum.splits)

lemma renderLoop_part001_fails:
  "failsAt (\<lambda>j v. runView env (i + j) v (cameraParams_part001 v)) vs k cause \<Longrightarrow>
   renderLoop_part001 env i vs rs w =
     (cleanup w, Inl (Error (''Failed to render '' @ name (vs ! k) @ '': '' @ cause)))"
proof (induction vs arbitrary: i k rs)
  case Nil
  then show ?case by (simp add: failsAt_iff)
next
  case (Cons v vs)
  from Cons.prems show ?case
  proof (cases k)
    case 0
    with Cons.prems show ?thesis by (simp add: failsAt_Cons)
  next
    case (Suc l)
    with Cons.prems have ok: "\<not> isl (runView env i v (cameraParams_part001 v))"
      and rest: "failsAt (\<lambda>j v. runView env (Suc i + j) v (cameraParams_part001 v)) vs l cause"
      by (auto simp: failsAt_Cons)
    from ok obtain img where img: "runView env i v (cameraParams_part001 v) = Inr img"
      by (cases "runView env i v (cameraParams_part001 v)") auto
    show ?thesis
      using Cons.IH [OF rest] img Suc by simp
  qed
qed

lemma renderLoop_part000_fails:
  "failsAt (\<lambda>j v. runView env (i + j) v (cameraParams_part000 v)) vs k cause \<Longrightarrow>
   renderLoop_part000 env i vs rs w = (cleanup w, Inl (Error (''Render failed: '' @ cause)))"
proof (induction vs arbitrary: i k rs)
  case Nil
  then show ?case by (simp add: failsAt_iff)
next
  case (Cons v vs)
  from Cons.prems show ?case
  proof (cases k)
    case 0
    with Cons.prems show ?thesis by (simp add: failsAt_Cons)
  next
    case (Suc l)
    with Cons.prems have ok: "\<not> isl (runView env i v (cameraParams_part000 v))"
      and rest: "failsAt (\<lambda>j v. runView env (Suc i + j) v (cameraParams_part000 v)) vs l cause"
      by (auto simp: failsAt_Cons)
    from ok obtain img where img: "runView env i v (cameraParams_part000 v) = Inr img"
      by (cases "runView env i v (cameraParams_part000 v)") auto
    show ?thesis
      using Cons.IH [OF rest] img Suc by simp
  qed
qed

lemma renderLoop_index1_fails:
  "failsAt (\<lambda>j. viewStep_index1 env (i + j)) vs k cause \<Longrightarrow>
   renderLoop_index1 env i vs rs w =
     (w, Inl (Error (''Failed to render view '' @ name (vs ! k) @ '': '' @ cause)))"
proof (induction vs arbitrary: i k rs)
  case Nil
  then show ?case by (simp add: failsAt_iff)
next
  case (Cons v vs)
  from Cons.prems show ?case
  proof (cases k)
    case 0
    with Cons.prems show ?thesis by (simp add: failsAt_Cons)
  next
    case (Suc l)
    with Cons.prems have ok: "\<not> isl (viewStep_index1 env i v)"
      and rest: "failsAt (\<lambda>j. viewStep_index1 env (Suc i + j)) vs l cause"
      by (auto simp: failsAt_Cons)
    from ok obtain img where img: "viewStep_index1 env i v = Inr img"
      by (cases "viewStep_index1 env i v") auto
    show ?thesis
      using Cons.IH [OF rest] img Suc by simp
  qed
qed

lemma prepare_ok:
  "prepared env \<Longrightarrow>
   prepare clean b env w =
     ((clean w)\<lparr> tempDir := Some (scratchName env),
                  dirs := insert (scratchName env) (dirs (clean w)) \<rparr>, None)"
  by (simp add: prepare_def prepared_def Let_def)

lemma cleanup_removes:
  "tempDir w = Some d \<Longrightarrow> d \<notin> dirs (cleanup w) \<and> tempDir (cleanup w) = None"
  by (simp add: cleanup_def)


text \<open>
  C7, as amended. When the steps of a view fail, \<^verbatim>\<open>render\<close> throws and returns no result,
  and the command leaves the state file as it is, so that no render is attached to the
  iteration. The error names the view in \<^verbatim>\<open>part_001\<close> and in the first revision of
  \<^verbatim>\<open>index.ts\<close>; in \<^verbatim>\<open>part_000\<close> it holds the cause only. In \<^verbatim>\<open>part_000\<close> and
  \<^verbatim>\<open>part_001\<close>, once the calls before the loop have succeeded, the scratch directory of
  the call is gone when \<^verbatim>\<open>render\<close> ends, whether it returns or a view fails.
\<close>

theorem render_failure:
  "(prepared ea \<and> failsAt (\<lambda>j v. runView ea j v (cameraParams_part001 v)) (views m) k cause \<longrightarrow>
      snd (render_part001 ea w m) =
        Inl (Error (''Failed to render '' @ name (views m ! k) @ '': '' @ cause))
      \<and> fst (afterRender senv file (snd (render_part001 ea w m))) = file)
 \<and> (prepared ea \<longrightarrow>
      scratchName ea \<notin> dirs (fst (render_part001 ea w m))
      \<and> tempDir (fst (render_part001 ea w m)) = None)
 \<and> (prepared eb \<and> failsAt (\<lambda>j v. runView eb j v (cameraParams_part000 v)) (views m) k cause \<longrightarrow>
      snd (render_part000 eb w m) = Inl (Error (''Render failed: '' @ cause))
      \<and> fst (afterRender senv file (snd (render_part000 eb w m))) = file)
 \<and> (prepared eb \<longrightarrow>
      scratchName eb \<notin> dirs (fst (render_part000 eb w m))
      \<and> tempDir (fst (render_part000 eb w m)) = None)
 \<and> (prepared eb \<and> failsAt (viewStep_index1 eb) (views m) k cause \<longrightarrow>
      snd (render_index1 eb w m) =
        Inl (Error (''Failed to render view '' @ name (views m ! k) @ '': '' @ cause))
      \<and> fst (afterRender senv file (snd (render_index1 eb w m))) = file)"
proof -
  have a1: "snd (render_part001 ea w m) =
        Inl (Error (''Failed to render '' @ name (views m ! k) @ '': '' @ cause))"
    if "prepared ea" "failsAt (\<lambda>j v. runView ea j v (cameraParams_part001 v)) (views m) k cause"
    using renderLoop_part001_fails [of ea 0 "views m" k cause] that
    by (simp add: render_part001_def prepare_ok)
  have b1: "scratchName ea \<notin> dirs (fst (render_part001 ea w m))
      \<and> tempDir (fst (render_part001 ea w m)) = None" if "prepared ea"
    using that cleanup_removes [of _ "scratchName ea"]
    by (simp add: render_part001_def prepare_ok renderLoop_part001_world)
  have a0: "snd (render_part000 eb w m) = Inl (Error (''Render failed: '' @ cause))"
    if "prepared eb" "failsAt (\<lambda>j v. runView eb j v (cameraParams_part000 v)) (views m) k cause"
    using renderLoop_part000_fails [of eb 0 "views m" k cause] that
    by (simp add: render_part000_def prepare_ok)
  have b0: "scratchName eb \<notin> dirs (fst (render_part000 eb w m))
      \<and> tempDir (fst (render_part000 eb w m)) = None" if "prepared eb"
    using that cleanup_removes [of _ "scratchName eb"]
    by (simp add: render_part000_def prepare_ok renderLoop_part000_world)
  have a2: "snd (render_index1 eb w m) =
        Inl (Error (''Failed to render view '' @ name (views m ! k) @ '': '' @ cause))"
    if "prepared eb" "failsAt (viewStep_index1 eb) (views m) k cause"
    using renderLoop_index1_fails [of eb 0 "views m" k cause] that
    by (simp add: render_index1_def prepare_ok)
  have f: "fst (afterRender senv file (Inl e)) = file" for e
    by (simp add: afterRender_def)
  show ?thesis
    using a1 b1 a0 b0 a2 f by presburger
qed

lemma cubeModel_top_fails:
  "failsAt (\<lambda>j v. runView (topFails :: (real option list) RenderEnv) j v (cameraParams_part001 v))
     (views cubeModel) 1 ''boom''"
  "failsAt (\<lambda>j v. runView (topFails :: (jsnum list) RenderEnv) j v (cameraParams_part000 v))
     (views cubeModel) 1 ''boom''"
  "failsAt (viewStep_index1 topFails) (views cubeModel) 1 ''boom''"
  by (simp_all add: failsAt_def topFails_def cubeModel_def defaultViews_part000_def
      viewStep_index1_def)

theorem render_failure_witness:
  "prepared (topFails :: (real option list) RenderEnv)
 \<and> prepared (topFails :: (jsnum list) RenderEnv)
 \<and> failsAt (\<lambda>j v. runView (topFails :: (real option list) RenderEnv) j v (cameraParams_part001 v))
       (views cubeModel) 1 ''boom''
 \<and> failsAt (\<lambda>j v. runView (topFails :: (jsnum list) RenderEnv) j v (cameraParams_part000 v))
       (views cubeModel) 1 ''boom''
 \<and> failsAt (viewStep_index1 topFails) (views cubeModel) 1 ''boom''
 \<and> snd (render_part001 topFails emptyWorld cubeModel) = Inl (Error ''Failed to render top: boom'')
 \<and> snd (render_part000 topFails emptyWorld cubeModel) = Inl (Error ''Render failed: boom'')
 \<and> snd (render_index1 topFails emptyWorld cubeModel) =
       Inl (Error ''Failed to render view top: boom'')
 \<and> ''/tmp/cad-forge-1'' \<notin> dirs (fst (render_part001 topFails emptyWorld cubeModel))
 \<and> ''/tmp/cad-forge-1'' \<notin> dirs (fst (render_part000 topFails emptyWorld cubeModel))
 \<and> fst (afterRender sessionEnv (Some ''t0;'')
       (snd (render_part001 topFails emptyWorld cubeModel))) = Some ''t0;''"
proof -
  have p: "prepared (topFails :: (real option list) RenderEnv)"
    "prepared (topFails :: (jsnum list) RenderEnv)"
    by (simp_all add: prepared_def topFails_def)
  have n: "name (views cubeModel ! 1) = ''top''"
    "scratchName (topFails :: (real option list) RenderEnv) = ''/tmp/cad-forge-1''"
    "scratchName (topFails :: (jsnum list) RenderEnv) = ''/tmp/cad-forge-1''"
    by (simp_all add: cubeModel_def defaultViews_part000_def topFails_def)
  note t = render_failure [of topFails cubeModel 1 "''boom''" emptyWorld sessionEnv
      "Some ''t0;''" topFails]
  show ?thesis
    using t p cubeModel_top_fails n by (simp add: afterRender_def)
qed

text \<open>
  C7 as stated fails in \<^verbatim>\<open>part_000\<close>: when the view \<^verbatim>\<open>top\<close> fails, the error holds the
  cause and not the name of the view.
\<close>

theorem unnamed_view_counterexample:
  "render_part000 topFails emptyWorld cubeModel =
     (emptyWorld, Inl (Error ''Render failed: boom''))
 \<and> map name (views cubeModel) = [''front'', ''top'', ''iso'']
 \<and> \<not> mentions ''Render failed: boom'' ''top''
 \<and> render_part001 topFails emptyWorld cubeModel =
     (emptyWorld, Inl (Error ''Failed to render top: boom''))
 \<and> mentions ''Failed to render top: boom'' ''top''"
proof -
  have a: "render_part000 topFails emptyWorld cubeModel =
     (emptyWorld, Inl (Error ''Render failed: boom''))"
    by (simp add: render_part000_def topFails_def emptyWorld_def cubeModel_def
        defaultViews_part000_def prepare_def cleanup_def)
  have b: "render_part001 topFails emptyWorld cubeModel =
     (emptyWorld, Inl (Error ''Failed to render top: boom''))"
    by (simp add: render_part001_def topFails_def emptyWorld_def cubeModel_def
        defaultViews_part000_def prepare_def cleanup_def)
  have c: "\<not> mentions ''Render failed: boom'' ''top''"
    "mentions ''Failed to render top: boom'' ''top''"
    by code_simp+
  have d: "map name (views cubeModel) = [''front'', ''top'', ''iso'']"
    by (simp add: cubeModel_def defaultViews_part000_def)
  show ?thesis using a b c d by blast
qed

end
